theory Spec2Isabelle
  imports Main
begin

section \<open>The resource parser of package component (resource\_parser.go)\<close>

text \<open>
  The parser merges, one call at a time, a schema node and the content rows of one locale
  into two stores it owns: the category registry (an index from (id, locale) to a position
  and the list of localized categories) and the form store. This theory embeds
  \<^verbatim>\<open>resource_parser.go\<close> function by function.

  Conventions of the embedding.
  \<^item> A Go string is a \<open>string\<close>: a list of bytes.
  \<^item> A content row is a \<^verbatim>\<open>map[string]string\<close> that may be nil: \<open>None\<close> is the nil
    map, and reading any key of a nil map or a missing key of a map yields the empty string.
  \<^item> Every node the parser stores is allocated by the parser itself
    (\<^verbatim>\<open>&Category{...}\<close>, \<^verbatim>\<open>&Subcategory{...}\<close>, ...), so no two stored pointers alias and
    the owned tree is a nested value. A pointer into the tree is the position of the node
    in its parent's list; writing through the pointer is a list update at that position.
  \<^item> The schema nodes handed to \<^verbatim>\<open>Parse\<close> are read through their \<^verbatim>\<open>parent\<close> chain only;
    they are records holding their parent. The pointers handed to \<^verbatim>\<open>Parse\<close> (the
    component, its parents, the resource) are taken to be non-nil.
  \<^item> A function returns \<open>Ret v\<close>, or \<open>Panic p\<close> where Go panics at run time.
\<close>

subsection \<open>Errors and run-time panics\<close>

text \<open>
  One constructor per error value of the source: the package variable \<^verbatim>\<open>ErrContent\<close> and
  each \<^verbatim>\<open>fmt.Errorf\<close> / \<^verbatim>\<open>errors.New\<close> site with the arguments it formats.
\<close>

datatype error =
    ErrContent
  | NoCat string string
  | NoSub string string
  | NoDif string string
  | InvalidLegacy string string
  | ChecksExpected nat nat
  | NoMoreAtScreen nat nat
  | ExpectedScreenGotItem nat
  | ExpectedItemGotScreen nat nat string
  | InvalidComponent

datatype error_kind = ShapeMismatch | NotFound | UnsupportedVariant

text \<open>
  Modelled from the spec: the error kinds of section 7 (the source returns plain error
  values and has no kinds). \<open>ShapeMismatch\<close> covers fixed-count violations, a legacy
  body with several rows, a checklist count mismatch and form misalignment; \<open>NotFound\<close> a
  missing ancestor; \<open>UnsupportedVariant\<close> the dispatcher's default.
\<close>

fun kind_of :: "error \<Rightarrow> error_kind" where
  "kind_of ErrContent = ShapeMismatch"
| "kind_of (NoCat _ _) = NotFound"
| "kind_of (NoSub _ _) = NotFound"
| "kind_of (NoDif _ _) = NotFound"
| "kind_of (InvalidLegacy _ _) = ShapeMismatch"
| "kind_of (ChecksExpected _ _) = ShapeMismatch"
| "kind_of (NoMoreAtScreen _ _) = ShapeMismatch"
| "kind_of (ExpectedScreenGotItem _) = ShapeMismatch"
| "kind_of (ExpectedItemGotScreen _ _ _) = ShapeMismatch"
| "kind_of InvalidComponent = UnsupportedVariant"

datatype panic = IndexOutOfRange nat nat

datatype 'a outcome = Ret 'a | Panic panic

subsection \<open>Strings: strings.TrimSpace and strings.Split\<close>

text \<open>
  \<^verbatim>\<open>strings.TrimSpace\<close> of the Go library removes leading and trailing white space as
  \<^verbatim>\<open>unicode.IsSpace\<close> defines it, on the UTF-8 bytes of the string: the six ASCII spaces
  and the code points U+0085, U+00A0, U+1680, U+2000 to U+200A, U+2028, U+2029, U+202F,
  U+205F and U+3000. \<open>space_runes\<close> lists their encodings.
\<close>

definition space_runes :: "string list" where
  "space_runes =
    [[CHR 0x09], [CHR 0x0A], [CHR 0x0B], [CHR 0x0C], [CHR 0x0D], [CHR 0x20],
     [CHR 0xC2, CHR 0x85], [CHR 0xC2, CHR 0xA0],
     [CHR 0xE1, CHR 0x9A, CHR 0x80],
     [CHR 0xE2, CHR 0x80, CHR 0x80], [CHR 0xE2, CHR 0x80, CHR 0x81],
     [CHR 0xE2, CHR 0x80, CHR 0x82], [CHR 0xE2, CHR 0x80, CHR 0x83],
     [CHR 0xE2, CHR 0x80, CHR 0x84], [CHR 0xE2, CHR 0x80, CHR 0x85],
     [CHR 0xE2, CHR 0x80, CHR 0x86], [CHR 0xE2, CHR 0x80, CHR 0x87],
     [CHR 0xE2, CHR 0x80, CHR 0x88], [CHR 0xE2, CHR 0x80, CHR 0x89],
     [CHR 0xE2, CHR 0x80, CHR 0x8A],
     [CHR 0xE2, CHR 0x80, CHR 0xA8], [CHR 0xE2, CHR 0x80, CHR 0xA9],
     [CHR 0xE2, CHR 0x80, CHR 0xAF],
     [CHR 0xE2, CHR 0x81, CHR 0x9F],
     [CHR 0xE3, CHR 0x80, CHR 0x80]]"

text \<open>\<open>strip_rune ws s\<close> removes the first of the byte sequences \<open>ws\<close> that starts \<open>s\<close>.\<close>

fun strip_rune :: "string list \<Rightarrow> string \<Rightarrow> string option" where
  "strip_rune [] s = None"
| "strip_rune (w # ws) s =
     (if w \<noteq> [] \<and> take (length w) s = w then Some (drop (length w) s)
      else strip_rune ws s)"

lemma strip_rune_shorter: "strip_rune ws s = Some s' \<Longrightarrow> length s' < length s"
proof (induction ws)
  case Nil
  then show ?case by simp
next
  case (Cons w ws)
  show ?case
  proof (cases "w \<noteq> [] \<and> take (length w) s = w")
    case True
    then have "length (take (length w) s) = length w" by simp
    then have le: "length w \<le> length s" by simp
    from True have pos: "0 < length w" by simp
    from le pos have "length s - length w < length s" by linarith
    moreover from True Cons.prems have "s' = drop (length w) s" by simp
    ultimately show ?thesis by simp
  next
    case False
    with Cons show ?thesis by auto
  qed
qed

function (sequential) trim_front :: "string list \<Rightarrow> string \<Rightarrow> string" where
  "trim_front ws [] = []"
| "trim_front ws (c # cs) =
     (case strip_rune ws (c # cs) of
        None \<Rightarrow> c # cs
      | Some s' \<Rightarrow> trim_front ws s')"
  by pat_completeness auto
termination
  by (relation "measure (\<lambda>(ws, s). length s)") (auto dest: strip_rune_shorter)

definition TrimSpace :: "string \<Rightarrow> string" where
  "TrimSpace s = rev (trim_front (map rev space_runes) (rev (trim_front space_runes s)))"

text \<open>
  \<^verbatim>\<open>strings.Split(s, sep)\<close> for a separator of one byte: the pieces between the
  separators, one piece (the empty string) for the empty string.
\<close>

fun Split :: "string \<Rightarrow> char \<Rightarrow> string list" where
  "Split [] sep = [[]]"
| "Split (c # cs) sep =
     (if c = sep then [] # Split cs sep
      else (c # hd (Split cs sep)) # tl (Split cs sep))"

subsection \<open>Content rows and the resource\<close>

type_synonym row = "(string \<rightharpoonup> string) option"

definition field :: "row \<Rightarrow> string \<Rightarrow> string" where
  "field r k = (case r of None \<Rightarrow> [] | Some m \<Rightarrow> (case m k of None \<Rightarrow> [] | Some v \<Rightarrow> v))"

record Resource =
  Content :: "row list"

subsection \<open>The localized tree\<close>

text \<open>
  The declarations of the node types are not in \<^verbatim>\<open>resource_parser.go\<close>; the records hold
  the fields the parser reads and writes. \<^verbatim>\<open>Order\<close> is only copied, never computed with.
\<close>

record Item =
  i_ID :: string
  i_Title :: string
  i_Order :: int
  i_Body :: string

record Check =
  Text :: string
  NoCheck :: bool

record Checklist =
  Checks :: "Check list"

record Difficulty =
  d_ID :: string
  d_Descr :: string
  d_items :: "Item list"
  d_checks :: "Checklist option"

record Subcategory =
  s_ID :: string
  s_Order :: int
  s_Name :: string
  s_difficulties :: "Difficulty list"

record Category =
  c_ID :: string
  c_Order :: int
  c_Name :: string
  c_Locale :: string
  c_subcategories :: "Subcategory list"

subsection \<open>Schema nodes\<close>

text \<open>
  A schema node as \<^verbatim>\<open>Parse\<close> reads it: its own fields and its \<^verbatim>\<open>parent\<close>.
\<close>

record SubcategoryNode =
  sn_ID :: string
  sn_Order :: int
  sn_parent :: Category

record DifficultyNode =
  dn_ID :: string
  dn_parent :: SubcategoryNode

record ItemNode =
  in_ID :: string
  in_Order :: int
  in_parent :: DifficultyNode

record ChecklistNode =
  cn_parent :: DifficultyNode
  cn_Checks :: "Check list"

record FormInput =
  Label :: string
  Hint :: string
  Options :: "string list option"

record FormScreen =
  fs_Name :: string
  Items :: "FormInput list"

record Form =
  f_ID :: string
  f_Name :: string
  f_Locale :: string
  Screens :: "FormScreen list"

text \<open>
  The \<^verbatim>\<open>Component\<close> interface: the six types of the type switch of \<^verbatim>\<open>Parse\<close>, and any
  other value of the interface.
\<close>

datatype Component =
    CForm Form
  | CCategory Category
  | CSubcategory SubcategoryNode
  | CDifficulty DifficultyNode
  | CItem ItemNode
  | CChecklist ChecklistNode
  | COther

subsection \<open>Methods of the node types\<close>

text \<open>\<open>find_pos P xs\<close> is the position of the first element of \<open>xs\<close> that satisfies \<open>P\<close>.\<close>

fun find_pos :: "('a \<Rightarrow> bool) \<Rightarrow> 'a list \<Rightarrow> nat option" where
  "find_pos P [] = None"
| "find_pos P (x # xs) = (if P x then Some 0 else map_option Suc (find_pos P xs))"

text \<open>\<open>modify i f xs\<close> writes through a pointer to the element at position \<open>i\<close>.\<close>

definition modify :: "nat \<Rightarrow> ('a \<Rightarrow> 'a) \<Rightarrow> 'a list \<Rightarrow> 'a list" where
  "modify i f xs = xs[i := f (xs ! i)]"

text \<open>
  Modelled from the spec: \<^verbatim>\<open>Category.Add\<close>, not in the source file. Section 4.3: the
  subcategory merger appends the new subcategory to the parent's child list.
\<close>

definition Category_Add :: "Category \<Rightarrow> Subcategory \<Rightarrow> Category" where
  "Category_Add c s = c\<lparr>c_subcategories := c_subcategories c @ [s]\<rparr>"

text \<open>
  Modelled from the spec: \<^verbatim>\<open>Category.Sub\<close>, not in the source file. Section 4.4: a by-id
  child lookup; the result is the pointer (here the position) of the child, or nil.
\<close>

definition Category_Sub :: "Category \<Rightarrow> string \<Rightarrow> nat option" where
  "Category_Sub c sid = find_pos (\<lambda>s. s_ID s = sid) (c_subcategories c)"

text \<open>
  Modelled from the spec: \<^verbatim>\<open>Subcategory.AddDifficulty\<close>, not in the source file.
  Section 4.4: the difficulty is appended to the subcategory.
\<close>

definition Subcategory_AddDifficulty :: "Subcategory \<Rightarrow> Difficulty \<Rightarrow> Subcategory" where
  "Subcategory_AddDifficulty s d = s\<lparr>s_difficulties := s_difficulties s @ [d]\<rparr>"

text \<open>
  Modelled from the spec: \<^verbatim>\<open>Subcategory.Difficulty\<close>, not in the source file.
  Section 4.5: the third level of the ancestor chain, looked up by id.
\<close>

definition Subcategory_Difficulty :: "Subcategory \<Rightarrow> string \<Rightarrow> nat option" where
  "Subcategory_Difficulty s did = find_pos (\<lambda>d. d_ID d = did) (s_difficulties s)"

text \<open>
  Modelled from the spec: \<^verbatim>\<open>Difficulty.AddItem\<close>, not in the source file. Section 4.5:
  the item is appended to the difficulty's ordered item list.
\<close>

definition Difficulty_AddItem :: "Difficulty \<Rightarrow> Item \<Rightarrow> Difficulty" where
  "Difficulty_AddItem d i = d\<lparr>d_items := d_items d @ [i]\<rparr>"

text \<open>
  Modelled from the spec: \<^verbatim>\<open>Difficulty.SetChecks\<close>, not in the source file. Section 4.6:
  the new checklist replaces any existing checklist of the difficulty.
\<close>

definition Difficulty_SetChecks :: "Difficulty \<Rightarrow> Checklist \<Rightarrow> Difficulty" where
  "Difficulty_SetChecks d cl = d\<lparr>d_checks := Some cl\<rparr>"

text \<open>
  Modelled from the spec: \<^verbatim>\<open>Checklist.Add\<close>, not in the source file. Section 4.6: the
  checks are collected in the order of the rows.
\<close>

definition Checklist_Add :: "Checklist \<Rightarrow> Check \<Rightarrow> Checklist" where
  "Checklist_Add cl c = cl\<lparr>Checks := Checks cl @ [c]\<rparr>"

subsection \<open>The parser and its registry\<close>

text \<open>
  \<open>categories_index\<close> and \<open>categories_list\<close> are the fields \<^verbatim>\<open>categories.index\<close> and
  \<^verbatim>\<open>categories.list\<close>; \<open>buffer\<close> is the contents of the \<^verbatim>\<open>bytes.Buffer\<close>.
\<close>

record ResourceParser =
  buffer :: string
  categories_index :: "(string \<times> string) \<rightharpoonup> nat"
  categories_list :: "Category list"
  forms :: "(string \<times> string) \<rightharpoonup> Form"

definition NewResourceParser :: ResourceParser where
  "NewResourceParser =
     \<lparr>buffer = [], categories_index = Map.empty, categories_list = [], forms = Map.empty\<rparr>"

definition addCat :: "ResourceParser \<Rightarrow> Category \<Rightarrow> ResourceParser" where
  "addCat r c =
     r\<lparr>categories_index := (categories_index r)((c_ID c, c_Locale c) \<mapsto> length (categories_list r)),
       categories_list := categories_list r @ [c]\<rparr>"

text \<open>
  \<^verbatim>\<open>getCat\<close>: nil when the index is empty; otherwise the entry at the position the index
  gives. Reading a key that is not in a Go map yields the zero value, here position 0.
  The result is the pointer stored at that position, modelled as the position.
\<close>

definition getCat :: "ResourceParser \<Rightarrow> string \<Rightarrow> string \<Rightarrow> nat option outcome" where
  "getCat r cid locale =
     (if categories_index r = Map.empty then Ret None
      else
        (let idx = (case categories_index r (cid, locale) of None \<Rightarrow> 0 | Some i \<Rightarrow> i) in
         if idx < length (categories_list r) then Ret (Some idx)
         else Panic (IndexOutOfRange idx (length (categories_list r)))))"

definition Categories :: "ResourceParser \<Rightarrow> (string \<rightharpoonup> Category list)" where
  "Categories r =
     foldl (\<lambda>res cat. res(c_Locale cat \<mapsto> (case res (c_Locale cat) of None \<Rightarrow> [] | Some l \<Rightarrow> l) @ [cat]))
       Map.empty (categories_list r)"

text \<open>Writing through pointers into the tree.\<close>

definition at_cat :: "nat \<Rightarrow> (Category \<Rightarrow> Category) \<Rightarrow> ResourceParser \<Rightarrow> ResourceParser" where
  "at_cat ci f r = r\<lparr>categories_list := modify ci f (categories_list r)\<rparr>"

definition at_sub :: "nat \<Rightarrow> (Subcategory \<Rightarrow> Subcategory) \<Rightarrow> Category \<Rightarrow> Category" where
  "at_sub si f c = c\<lparr>c_subcategories := modify si f (c_subcategories c)\<rparr>"

definition at_dif :: "nat \<Rightarrow> (Difficulty \<Rightarrow> Difficulty) \<Rightarrow> Subcategory \<Rightarrow> Subcategory" where
  "at_dif di f s = s\<lparr>s_difficulties := modify di f (s_difficulties s)\<rparr>"

subsection \<open>parseForm\<close>

text \<open>
  The inner loop of \<^verbatim>\<open>parseForm\<close> ranges over \<^verbatim>\<open>screen.Items\<close>, the slice of the form
  under construction, and \<^verbatim>\<open>item := screen.Items[j]\<close> copies the element: \<open>item'\<close> is
  the local copy after the three assignments, which the source stores nowhere. \<open>m\<close> is
  the rest of the row stream; \<^verbatim>\<open>m[0]\<close> panics on an empty stream.
\<close>

fun form_items :: "nat \<Rightarrow> nat \<Rightarrow> FormInput list \<Rightarrow> row list \<Rightarrow> (error + row list) outcome" where
  "form_items i j [] m = Ret (Inr m)"
| "form_items i j (item # items) m =
     (if Label item = [] \<and> Hint item = [] \<and> Options item = None
      then form_items i (Suc j) items m
      else
        (case m of
           [] \<Rightarrow> Panic (IndexOutOfRange 0 0)
         | m0 # m' \<Rightarrow>
             if field m0 ''screen'' \<noteq> []
             then Ret (Inl (ExpectedItemGotScreen i j (field m0 ''screen'')))
             else
               (let item' = item\<lparr>Label := field m0 ''label'', Hint := field m0 ''hint'',
                                  Options := Some (Split (field m0 ''options'') CHR '';'')\<rparr>
                in form_items i (Suc j) items m')))"

text \<open>
  The header of screen \<open>i\<close> of \<open>n\<close>: a screen with a name in the schema takes the next
  row, whose \<^verbatim>\<open>screen\<close> field names the localized screen.
\<close>

definition screen_header :: "nat \<Rightarrow> nat \<Rightarrow> FormScreen \<Rightarrow> row list \<Rightarrow> error + (string \<times> row list)" where
  "screen_header i n fs m =
     (if fs_Name fs \<noteq> [] then
        (case m of
           [] \<Rightarrow> Inl (NoMoreAtScreen (i + 1) n)
         | m0 # m' \<Rightarrow>
             if field m0 ''screen'' \<noteq> [] then Inr (field m0 ''screen'', m')
             else Inl (ExpectedScreenGotItem i))
      else Inr ([], m))"

text \<open>
  The outer loop, from screen \<open>i\<close> on: \<open>fss\<close> are the schema's screens still to walk;
  the result is the localized screens built for them. \<^verbatim>\<open>screen.Items\<close> is made with the
  length of the schema screen's items, every element the zero value.
\<close>

definition zero_FormInput :: FormInput where
  "zero_FormInput = \<lparr>Label = [], Hint = [], Options = None\<rparr>"

fun form_screens :: "nat \<Rightarrow> nat \<Rightarrow> FormScreen list \<Rightarrow> row list \<Rightarrow> (error + FormScreen list) outcome" where
  "form_screens i n [] m = Ret (Inr [])"
| "form_screens i n (fs # fss) m =
     (let items = replicate (length (Items fs)) zero_FormInput in
      case screen_header i n fs m of
        Inl e \<Rightarrow> Ret (Inl e)
      | Inr (name, m1) \<Rightarrow>
          (case form_items i 0 items m1 of
             Panic p \<Rightarrow> Panic p
           | Ret (Inl e) \<Rightarrow> Ret (Inl e)
           | Ret (Inr m2) \<Rightarrow>
               (case form_screens (Suc i) n fss m2 of
                  Panic p \<Rightarrow> Panic p
                | Ret (Inl e) \<Rightarrow> Ret (Inl e)
                | Ret (Inr screens) \<Rightarrow> Ret (Inr (\<lparr>fs_Name = name, Items = items\<rparr> # screens)))))"

definition parseForm :: "ResourceParser \<Rightarrow> Form \<Rightarrow> Resource \<Rightarrow> string \<Rightarrow> (ResourceParser \<times> error option) outcome" where
  "parseForm r f res locale =
     (case Content res of
        [] \<Rightarrow> Panic (IndexOutOfRange 0 0)
      | c0 # m \<Rightarrow>
          (case form_screens 0 (length (Screens f)) (Screens f) m of
             Panic p \<Rightarrow> Panic p
           | Ret (Inl e) \<Rightarrow> Ret (r, Some e)
           | Ret (Inr screens) \<Rightarrow>
               (let newForm = \<lparr>f_ID = f_ID f, f_Name = field c0 ''form'', f_Locale = locale,
                                Screens = screens\<rparr>
                in Ret (r\<lparr>forms := (forms r)((f_ID newForm, f_Locale newForm) \<mapsto> newForm)\<rparr>, None))))"

subsection \<open>parseCategory, parseSubcategory, parseDifficulty\<close>

definition parseCategory :: "ResourceParser \<Rightarrow> Category \<Rightarrow> Resource \<Rightarrow> string \<Rightarrow> (ResourceParser \<times> error option) outcome" where
  "parseCategory r c res locale =
     (if length (Content res) \<noteq> 1 then Ret (r, Some ErrContent)
      else Ret (addCat r \<lparr>c_ID = c_ID c, c_Order = c_Order c,
                           c_Name = field (Content res ! 0) ''name'', c_Locale = locale,
                           c_subcategories = []\<rparr>, None))"

definition parseSubcategory :: "ResourceParser \<Rightarrow> SubcategoryNode \<Rightarrow> Resource \<Rightarrow> string \<Rightarrow> (ResourceParser \<times> error option) outcome" where
  "parseSubcategory r s res locale =
     (if length (Content res) \<noteq> 1 then Ret (r, Some ErrContent)
      else
        (case getCat r (c_ID (sn_parent s)) locale of
           Panic p \<Rightarrow> Panic p
         | Ret None \<Rightarrow> Ret (r, Some (NoCat (c_ID (sn_parent s)) locale))
         | Ret (Some cat) \<Rightarrow>
             Ret (at_cat cat (\<lambda>c. Category_Add c
                    \<lparr>s_ID = sn_ID s, s_Order = sn_Order s,
                     s_Name = field (Content res ! 0) ''name'', s_difficulties = []\<rparr>) r, None)))"

definition parseDifficulty :: "ResourceParser \<Rightarrow> DifficultyNode \<Rightarrow> Resource \<Rightarrow> string \<Rightarrow> (ResourceParser \<times> error option) outcome" where
  "parseDifficulty r d res locale =
     (if length (Content res) \<noteq> 1 then Ret (r, Some ErrContent)
      else
        (case getCat r (c_ID (sn_parent (dn_parent d))) locale of
           Panic p \<Rightarrow> Panic p
         | Ret None \<Rightarrow> Ret (r, Some (NoCat (c_ID (sn_parent (dn_parent d))) locale))
         | Ret (Some cat) \<Rightarrow>
             (case Category_Sub (categories_list r ! cat) (sn_ID (dn_parent d)) of
                None \<Rightarrow> Ret (r, Some (NoSub (sn_ID (dn_parent d)) locale))
              | Some sub \<Rightarrow>
                  Ret (at_cat cat (at_sub sub (\<lambda>s. Subcategory_AddDifficulty s
                         \<lparr>d_ID = dn_ID d, d_Descr = field (Content res ! 0) ''description'',
                          d_items = [], d_checks = None\<rparr>)) r, None))))"

subsection \<open>parseItem\<close>

text \<open>
  The paragraph loop over \<^verbatim>\<open>res.Content[1:]\<close>: the separator is written when the buffer
  is not empty, then the trimmed \<^verbatim>\<open>body\<close> of the row. \<^verbatim>\<open>paragraphSep\<close> is a constant of
  the package that the source file does not declare; it is a parameter here.
\<close>

fun write_paragraphs :: "string \<Rightarrow> row list \<Rightarrow> string \<Rightarrow> string" where
  "write_paragraphs paragraphSep [] buf = buf"
| "write_paragraphs paragraphSep (v # vs) buf =
     write_paragraphs paragraphSep vs
       ((if buf \<noteq> [] then buf @ paragraphSep else buf) @ TrimSpace (field v ''body''))"

definition parseItem :: "string \<Rightarrow> ResourceParser \<Rightarrow> ItemNode \<Rightarrow> Resource \<Rightarrow> string \<Rightarrow> (ResourceParser \<times> error option) outcome" where
  "parseItem paragraphSep r i res locale =
     (if length (Content res) = 0 then Ret (r, Some ErrContent)
      else
        (case getCat r (c_ID (sn_parent (dn_parent (in_parent i)))) locale of
           Panic p \<Rightarrow> Panic p
         | Ret None \<Rightarrow> Ret (r, Some (NoCat (sn_ID (dn_parent (in_parent i))) locale))
         | Ret (Some cat) \<Rightarrow>
             (case Category_Sub (categories_list r ! cat) (sn_ID (dn_parent (in_parent i))) of
                None \<Rightarrow> Ret (r, Some (NoSub (sn_ID (dn_parent (in_parent i))) locale))
              | Some sub \<Rightarrow>
                  (case Subcategory_Difficulty (c_subcategories (categories_list r ! cat) ! sub)
                          (dn_ID (in_parent i)) of
                     None \<Rightarrow> Ret (r, Some (NoDif (dn_ID (in_parent i)) locale))
                   | Some dif \<Rightarrow>
                       (let item = \<lparr>i_ID = in_ID i,
                                     i_Title = TrimSpace (field (Content res ! 0) ''title''),
                                     i_Order = in_Order i, i_Body = []\<rparr>;
                            r1 = r\<lparr>buffer := []\<rparr>
                        in
                          if field (Content res ! 0) ''body'' \<noteq> [] then
                            (if length (Content res) \<noteq> 1
                             then Ret (r1, Some (InvalidLegacy (dn_ID (in_parent i)) locale))
                             else
                               (let r2 = r1\<lparr>buffer := buffer r1 @ TrimSpace (field (Content res ! 0) ''body'')\<rparr>
                                in Ret (at_cat cat (at_sub sub (at_dif dif
                                          (\<lambda>d. Difficulty_AddItem d (item\<lparr>i_Body := buffer r2\<rparr>)))) r2, None)))
                          else
                            (let r2 = r1\<lparr>buffer := write_paragraphs paragraphSep (tl (Content res)) (buffer r1)\<rparr>
                             in Ret (at_cat cat (at_sub sub (at_dif dif
                                       (\<lambda>d. Difficulty_AddItem d (item\<lparr>i_Body := buffer r2\<rparr>)))) r2, None)))))))"

subsection \<open>parseChecklist\<close>

text \<open>The loop that reslices \<^verbatim>\<open>res.Content\<close> while its first row is nil.\<close>

fun strip_nil :: "row list \<Rightarrow> row list" where
  "strip_nil (None # rs) = strip_nil rs"
| "strip_nil rs = rs"

text \<open>
  The loop over the rows, from row \<open>i\<close> on: \<^verbatim>\<open>c.Checks[i]\<close> panics when \<open>i\<close> is out of
  range.
\<close>

fun add_checks :: "Check list \<Rightarrow> nat \<Rightarrow> row list \<Rightarrow> Checklist \<Rightarrow> Checklist outcome" where
  "add_checks cs i [] checks = Ret checks"
| "add_checks cs i (r # rs) checks =
     (if i < length cs
      then add_checks cs (Suc i) rs
             (Checklist_Add checks \<lparr>Text = TrimSpace (field r ''text''), NoCheck = NoCheck (cs ! i)\<rparr>)
      else Panic (IndexOutOfRange i (length cs)))"

text \<open>
  \<^verbatim>\<open>parseChecklist\<close> assigns to \<^verbatim>\<open>res.Content\<close> through the caller's pointer: the
  resource is returned with the parser.
\<close>

definition parseChecklist :: "ResourceParser \<Rightarrow> ChecklistNode \<Rightarrow> Resource \<Rightarrow> string \<Rightarrow> (ResourceParser \<times> Resource \<times> error option) outcome" where
  "parseChecklist r c res locale =
     (case getCat r (c_ID (sn_parent (dn_parent (cn_parent c)))) locale of
        Panic p \<Rightarrow> Panic p
      | Ret None \<Rightarrow> Ret (r, res, Some (NoCat (sn_ID (dn_parent (cn_parent c))) locale))
      | Ret (Some cat) \<Rightarrow>
          (case Category_Sub (categories_list r ! cat) (sn_ID (dn_parent (cn_parent c))) of
             None \<Rightarrow> Ret (r, res, Some (NoSub (sn_ID (dn_parent (cn_parent c))) locale))
           | Some sub \<Rightarrow>
               (case Subcategory_Difficulty (c_subcategories (categories_list r ! cat) ! sub)
                       (dn_ID (cn_parent c)) of
                  None \<Rightarrow> Ret (r, res, Some (NoDif (dn_ID (cn_parent c)) locale))
                | Some dif \<Rightarrow>
                    (let res1 = res\<lparr>Content := strip_nil (Content res)\<rparr>;
                         l = length (Content res1);
                         e = length (cn_Checks c)
                     in
                       if l \<noteq> e then Ret (r, res1, Some (ChecksExpected l e))
                       else
                         (case add_checks (cn_Checks c) 0 (Content res1) \<lparr>Checks = []\<rparr> of
                            Panic p \<Rightarrow> Panic p
                          | Ret checks \<Rightarrow>
                              Ret (at_cat cat (at_sub sub (at_dif dif
                                     (\<lambda>d. Difficulty_SetChecks d checks))) r, res1, None))))))"

subsection \<open>Parse\<close>

text \<open>
  The dispatcher. Only \<^verbatim>\<open>parseChecklist\<close> writes to the resource; the other mergers
  return it as it came.
\<close>

definition keep_res :: "Resource \<Rightarrow> (ResourceParser \<times> error option) outcome \<Rightarrow> (ResourceParser \<times> Resource \<times> error option) outcome" where
  "keep_res res out = (case out of Panic p \<Rightarrow> Panic p | Ret (r, e) \<Rightarrow> Ret (r, res, e))"

fun Parse :: "string \<Rightarrow> ResourceParser \<Rightarrow> Component \<Rightarrow> Resource \<Rightarrow> string \<Rightarrow> (ResourceParser \<times> Resource \<times> error option) outcome" where
  "Parse paragraphSep r (CForm v) res locale = keep_res res (parseForm r v res locale)"
| "Parse paragraphSep r (CCategory v) res locale = keep_res res (parseCategory r v res locale)"
| "Parse paragraphSep r (CSubcategory v) res locale = keep_res res (parseSubcategory r v res locale)"
| "Parse paragraphSep r (CDifficulty v) res locale = keep_res res (parseDifficulty r v res locale)"
| "Parse paragraphSep r (CItem v) res locale = keep_res res (parseItem paragraphSep r v res locale)"
| "Parse paragraphSep r (CChecklist v) res locale = parseChecklist r v res locale"
| "Parse paragraphSep r COther res locale = Ret (r, res, Some InvalidComponent)"

subsection \<open>The paragraph join, as the specification words it\<close>

text \<open>
  Section 4.5 of the specification: the pieces are concatenated, and the separator stands
  between a non-empty accumulated text and the next piece, never before the first piece.
  This definition follows those words; \<open>write_paragraphs\<close> is the loop of the source.
\<close>

definition join_paragraphs :: "string \<Rightarrow> string list \<Rightarrow> string" where
  "join_paragraphs sep ps = foldl (\<lambda>acc p. (if acc \<noteq> [] then acc @ sep else acc) @ p) [] ps"

subsection \<open>Resolved ancestor chains\<close>

text \<open>
  The three lookups that \<^verbatim>\<open>parseItem\<close> and \<^verbatim>\<open>parseChecklist\<close> start with: the chain
  resolves when \<^verbatim>\<open>getCat\<close>, \<^verbatim>\<open>Sub\<close> and \<^verbatim>\<open>Difficulty\<close> all return a pointer.
  \<open>dif_at\<close> reads the difficulty such a chain leads to.
\<close>

definition resolves :: "ResourceParser \<Rightarrow> string \<Rightarrow> string \<Rightarrow> string \<Rightarrow> string \<Rightarrow> nat \<Rightarrow> nat \<Rightarrow> nat \<Rightarrow> bool" where
  "resolves r cid sid did locale cat sub dif \<longleftrightarrow>
     getCat r cid locale = Ret (Some cat) \<and>
     Category_Sub (categories_list r ! cat) sid = Some sub \<and>
     Subcategory_Difficulty (c_subcategories (categories_list r ! cat) ! sub) did = Some dif"

definition dif_at :: "ResourceParser \<Rightarrow> nat \<Rightarrow> nat \<Rightarrow> nat \<Rightarrow> Difficulty" where
  "dif_at r cat sub dif = s_difficulties (c_subcategories (categories_list r ! cat) ! sub) ! dif"

subsection \<open>The invariant of the registry\<close>

text \<open>
  Every position the index holds is a position of the list. \<^verbatim>\<open>NewResourceParser\<close>
  establishes it and every call of \<^verbatim>\<open>Parse\<close> keeps it, as is proved below.
\<close>

definition registry_ok :: "ResourceParser \<Rightarrow> bool" where
  "registry_ok r \<longleftrightarrow> (\<forall>k i. categories_index r k = Some i \<longrightarrow> i < length (categories_list r))"

subsection \<open>Example inputs\<close>

text \<open>A row given by its fields.\<close>

definition row_of :: "(string \<times> string) list \<Rightarrow> row" where
  "row_of kvs = Some (map_of kvs)"

definition ex_category :: Category where
  "ex_category = \<lparr>c_ID = ''c1'', c_Order = 1, c_Name = [], c_Locale = [], c_subcategories = []\<rparr>"

definition ex_form :: Form where
  "ex_form =
     \<lparr>f_ID = ''f1'', f_Name = [], f_Locale = [],
      Screens = [\<lparr>fs_Name = ''screen'',
                  Items = [\<lparr>Label = ''label'', Hint = ''hint'', Options = Some [''x'', ''y'']\<rparr>,
                           \<lparr>Label = [], Hint = [], Options = None\<rparr>]\<rparr>]\<rparr>"

definition ex_form_rows :: "row list" where
  "ex_form_rows =
     [row_of [(''form'', ''F'')], row_of [(''screen'', ''S1'')],
      row_of [(''label'', ''L''), (''hint'', ''H''), (''options'', ''a;b'')]]"

definition ex_tree :: ResourceParser where
  "ex_tree =
     \<lparr>buffer = ''stale'',
      categories_index = [(''c1'', ''en'') \<mapsto> 0],
      categories_list =
        [\<lparr>c_ID = ''c1'', c_Order = 1, c_Name = ''Health'', c_Locale = ''en'',
          c_subcategories =
            [\<lparr>s_ID = ''s1'', s_Order = 1, s_Name = ''Water'',
              s_difficulties =
                [\<lparr>d_ID = ''d1'', d_Descr = ''Beginner'', d_items = [],
                  d_checks = Some \<lparr>Checks = [\<lparr>Text = ''old'', NoCheck = False\<rparr>]\<rparr>\<rparr>]\<rparr>]\<rparr>],
      forms = Map.empty\<rparr>"

definition ex_difficulty_node :: DifficultyNode where
  "ex_difficulty_node =
     \<lparr>dn_ID = ''d1'', dn_parent = \<lparr>sn_ID = ''s1'', sn_Order = 1, sn_parent = ex_category\<rparr>\<rparr>"

definition ex_checklist_node :: ChecklistNode where
  "ex_checklist_node =
     \<lparr>cn_parent = ex_difficulty_node,
      cn_Checks = [\<lparr>Text = [], NoCheck = True\<rparr>, \<lparr>Text = [], NoCheck = False\<rparr>]\<rparr>"

definition ex_item_node :: ItemNode where
  "ex_item_node = \<lparr>in_ID = ''i1'', in_Order = 3, in_parent = ex_difficulty_node\<rparr>"

definition ex_sep :: string where
  "ex_sep = [CHR 0x0A, CHR 0x0A]"

definition ex_subcategory_node :: SubcategoryNode where
  "ex_subcategory_node = \<lparr>sn_ID = ''s1'', sn_Order = 1, sn_parent = ex_category\<rparr>"

section \<open>Properties of the helper functions\<close>

lemma find_pos_Some: "find_pos P xs = Some i \<Longrightarrow> i < length xs \<and> P (xs ! i)"
proof (induction xs arbitrary: i)
  case Nil
  then show ?case by simp
next
  case (Cons x xs)
  show ?case
  proof (cases "P x")
    case True
    with Cons.prems show ?thesis by simp
  next
    case False
    with Cons.prems obtain j where j: "find_pos P xs = Some j" and i: "i = Suc j"
      by auto
    from Cons.IH [OF j] i show ?thesis by simp
  qed
qed

lemma find_pos_None: "find_pos P xs = None \<longleftrightarrow> (\<forall>x \<in> set xs. \<not> P x)"
  by (induction xs) auto

lemma strip_nil_dropWhile: "strip_nil rs = dropWhile (\<lambda>x. x = None) rs"
  by (induction rs rule: strip_nil.induct) auto

lemma add_checks_in_range:
  "i + length rs \<le> length cs \<Longrightarrow>
   add_checks cs i rs checks =
     Ret (checks\<lparr>Checks := Checks checks @
            map (\<lambda>(r, c). \<lparr>Text = TrimSpace (field r ''text''), NoCheck = NoCheck c\<rparr>)
              (zip rs (drop i cs))\<rparr>)"
proof (induction rs arbitrary: i checks)
  case Nil
  then show ?case by simp
next
  case (Cons r rs)
  from Cons.prems have lt: "i < length cs" and le: "Suc i + length rs \<le> length cs"
    by simp_all
  from lt have d: "drop i cs = cs ! i # drop (Suc i) cs"
    by (simp add: Cons_nth_drop_Suc)
  show ?case
    using lt by (simp add: Cons.IH [OF le] d Checklist_Add_def)
qed

lemma form_items_zero: "form_items i j (replicate n zero_FormInput) m = Ret (Inr m)"
  by (induction n arbitrary: j) (simp_all add: zero_FormInput_def)

lemma write_paragraphs_foldl:
  "write_paragraphs sep vs buf =
     foldl (\<lambda>acc p. (if acc \<noteq> [] then acc @ sep else acc) @ p) buf
       (map (\<lambda>v. TrimSpace (field v ''body'')) vs)"
  by (induction vs arbitrary: buf) simp_all

lemma Categories_foldl:
  "foldl (\<lambda>res cat. res(c_Locale cat \<mapsto> (case res (c_Locale cat) of None \<Rightarrow> [] | Some l \<Rightarrow> l) @ [cat])) m cs loc =
     (case m loc of
        None \<Rightarrow> (if filter (\<lambda>c. c_Locale c = loc) cs = [] then None
                  else Some (filter (\<lambda>c. c_Locale c = loc) cs))
      | Some l \<Rightarrow> Some (l @ filter (\<lambda>c. c_Locale c = loc) cs))"
  by (induction cs arbitrary: m) (auto split: option.splits)

lemma Categories_filter:
  "Categories r loc =
     (if filter (\<lambda>c. c_Locale c = loc) (categories_list r) = [] then None
      else Some (filter (\<lambda>c. c_Locale c = loc) (categories_list r)))"
  by (simp add: Categories_def Categories_foldl)

lemma TrimSpace_legacy: "TrimSpace '' legacy '' = ''legacy''"
  by (simp add: TrimSpace_def space_runes_def)

lemma Split_ab: "Split ''a;b'' CHR '';'' = [''a'', ''b'']"
  by simp

text \<open>
  The items of every localized screen are zero values, whatever the rows: the inner loop of
  \<^verbatim>\<open>parseForm\<close> reads the slice it has just made.
\<close>

lemma form_screens_zero_items:
  "form_screens i n fss m = Ret (Inr screens) \<Longrightarrow>
   map Items screens = map (\<lambda>fs. replicate (length (Items fs)) zero_FormInput) fss"
proof (induction fss arbitrary: i m screens)
  case Nil
  then show ?case by simp
next
  case (Cons fs fss)
  show ?case
  proof (cases "screen_header i n fs m")
    case (Inl e)
    with Cons.prems show ?thesis by (simp add: Let_def)
  next
    case (Inr p)
    obtain name m1 where p: "p = (name, m1)" by (cases p)
    from Cons.prems Inr p obtain rest where
      r: "form_screens (Suc i) n fss m1 = Ret (Inr rest)" and
      s: "screens = \<lparr>fs_Name = name, Items = replicate (length (Items fs)) zero_FormInput\<rparr> # rest"
      by (auto simp: Let_def form_items_zero split: outcome.splits sum.splits)
    from Cons.IH [OF r] s show ?thesis by simp
  qed
qed

lemma getCat_Some_bound: "getCat r cid locale = Ret (Some cat) \<Longrightarrow> cat < length (categories_list r)"
  by (auto simp: getCat_def Let_def split: if_splits)

lemma resolves_bounds:
  assumes "resolves r cid sid did locale cat sub dif"
  shows "cat < length (categories_list r)"
    and "sub < length (c_subcategories (categories_list r ! cat))"
    and "dif < length (s_difficulties (c_subcategories (categories_list r ! cat) ! sub))"
  using assms
  by (auto simp: resolves_def Category_Sub_def Subcategory_Difficulty_def
      dest: getCat_Some_bound find_pos_Some)

lemma resolves_ids:
  assumes "resolves r cid sid did locale cat sub dif"
  shows "s_ID (c_subcategories (categories_list r ! cat) ! sub) = sid"
    and "d_ID (dif_at r cat sub dif) = did"
  using assms
  by (auto simp: resolves_def Category_Sub_def Subcategory_Difficulty_def dif_at_def
      dest: find_pos_Some)

lemma dif_at_write:
  assumes "cat < length (categories_list r)"
    and "sub < length (c_subcategories (categories_list r ! cat))"
    and "dif < length (s_difficulties (c_subcategories (categories_list r ! cat) ! sub))"
  shows "dif_at (at_cat cat (at_sub sub (at_dif dif f)) r) cat sub dif = f (dif_at r cat sub dif)"
  using assms by (simp add: dif_at_def at_cat_def at_sub_def at_dif_def modify_def)

lemma at_cat_stores:
  "categories_index (at_cat cat f r) = categories_index r"
  "forms (at_cat cat f r) = forms r"
  "buffer (at_cat cat f r) = buffer r"
  "length (categories_list (at_cat cat f r)) = length (categories_list r)"
  by (simp_all add: at_cat_def modify_def)

lemma parseChecklist_resolved:
  assumes "resolves r (c_ID (sn_parent (dn_parent (cn_parent c)))) (sn_ID (dn_parent (cn_parent c)))
             (dn_ID (cn_parent c)) locale cat sub dif"
  shows "parseChecklist r c res locale =
     (if length (strip_nil (Content res)) \<noteq> length (cn_Checks c)
      then Ret (r, res\<lparr>Content := strip_nil (Content res)\<rparr>,
                Some (ChecksExpected (length (strip_nil (Content res))) (length (cn_Checks c))))
      else Ret (at_cat cat (at_sub sub (at_dif dif (\<lambda>d. Difficulty_SetChecks d
                  \<lparr>Checks = map (\<lambda>(row, ch). \<lparr>Text = TrimSpace (field row ''text''), NoCheck = NoCheck ch\<rparr>)
                              (zip (strip_nil (Content res)) (cn_Checks c))\<rparr>))) r,
                res\<lparr>Content := strip_nil (Content res)\<rparr>, None))"
proof -
  let ?rows = "strip_nil (Content res)"
  from assms have
    g: "getCat r (c_ID (sn_parent (dn_parent (cn_parent c)))) locale = Ret (Some cat)" and
    s: "Category_Sub (categories_list r ! cat) (sn_ID (dn_parent (cn_parent c))) = Some sub" and
    d: "Subcategory_Difficulty (c_subcategories (categories_list r ! cat) ! sub) (dn_ID (cn_parent c)) = Some dif"
    by (simp_all add: resolves_def)
  show ?thesis
  proof (cases "length ?rows = length (cn_Checks c)")
    case True
    then have "add_checks (cn_Checks c) 0 ?rows \<lparr>Checks = []\<rparr> =
        Ret \<lparr>Checks = map (\<lambda>(row, ch). \<lparr>Text = TrimSpace (field row ''text''), NoCheck = NoCheck ch\<rparr>)
                        (zip ?rows (cn_Checks c))\<rparr>"
      by (simp add: add_checks_in_range)
    with True show ?thesis
      by (simp add: parseChecklist_def g s d)
  next
    case False
    then show ?thesis
      by (simp add: parseChecklist_def g s d)
  qed
qed

lemma strip_nil_shorter: "length (strip_nil (None # rs)) < length (None # rs)"
proof -
  have "length (dropWhile (\<lambda>x. x = None) rs) \<le> length rs"
    by (rule length_dropWhile_le)
  then show ?thesis by (simp add: strip_nil_dropWhile)
qed

lemma ex_tree_resolves: "resolves ex_tree ''c1'' ''s1'' ''d1'' ''en'' 0 0 0"
  by (simp add: resolves_def ex_tree_def getCat_def Category_Sub_def Subcategory_Difficulty_def)

lemma TrimSpace_a: "TrimSpace '' a '' = ''a''"
  by (simp add: TrimSpace_def space_runes_def)

lemma TrimSpace_b: "TrimSpace ''b'' = ''b''"
  by (simp add: TrimSpace_def space_runes_def)

lemma join_paragraphs_write:
  "write_paragraphs sep vs [] = join_paragraphs sep (map (\<lambda>v. TrimSpace (field v ''body'')) vs)"
  by (simp add: write_paragraphs_foldl join_paragraphs_def)

lemma parseItem_resolved:
  assumes chain: "resolves r (c_ID (sn_parent (dn_parent (in_parent i)))) (sn_ID (dn_parent (in_parent i)))
             (dn_ID (in_parent i)) locale cat sub dif"
    and rows: "Content res \<noteq> []"
  shows "parseItem sep r i res locale =
     (if field (Content res ! 0) ''body'' \<noteq> [] then
        (if length (Content res) \<noteq> 1
         then Ret (r\<lparr>buffer := []\<rparr>, Some (InvalidLegacy (dn_ID (in_parent i)) locale))
         else Ret (at_cat cat (at_sub sub (at_dif dif (\<lambda>d. Difficulty_AddItem d
                     \<lparr>i_ID = in_ID i, i_Title = TrimSpace (field (Content res ! 0) ''title''),
                      i_Order = in_Order i, i_Body = TrimSpace (field (Content res ! 0) ''body'')\<rparr>)))
                     (r\<lparr>buffer := TrimSpace (field (Content res ! 0) ''body'')\<rparr>), None))
      else Ret (at_cat cat (at_sub sub (at_dif dif (\<lambda>d. Difficulty_AddItem d
                  \<lparr>i_ID = in_ID i, i_Title = TrimSpace (field (Content res ! 0) ''title''),
                   i_Order = in_Order i,
                   i_Body = join_paragraphs sep (map (\<lambda>v. TrimSpace (field v ''body'')) (tl (Content res)))\<rparr>)))
                  (r\<lparr>buffer := join_paragraphs sep (map (\<lambda>v. TrimSpace (field v ''body'')) (tl (Content res)))\<rparr>),
                None))"
proof -
  from chain have
    g: "getCat r (c_ID (sn_parent (dn_parent (in_parent i)))) locale = Ret (Some cat)" and
    s: "Category_Sub (categories_list r ! cat) (sn_ID (dn_parent (in_parent i))) = Some sub" and
    d: "Subcategory_Difficulty (c_subcategories (categories_list r ! cat) ! sub) (dn_ID (in_parent i)) = Some dif"
    by (simp_all add: resolves_def)
  have al: "categories_list (r\<lparr>buffer := b\<rparr>) = categories_list r" for b
    by simp
  from rows show ?thesis
    by (simp add: parseItem_def g s d Let_def join_paragraphs_write at_cat_def)
qed

lemma parseItem_success_resolves:
  assumes "parseItem sep r i res locale = Ret (r', None)"
  shows "\<exists>cat sub dif. resolves r (c_ID (sn_parent (dn_parent (in_parent i))))
           (sn_ID (dn_parent (in_parent i))) (dn_ID (in_parent i)) locale cat sub dif"
  using assms
  by (auto simp: parseItem_def resolves_def Let_def
      split: if_splits outcome.splits option.splits)

lemma join_paragraphs_snoc:
  "join_paragraphs sep (ps @ [p]) =
     (if join_paragraphs sep ps = [] then p else join_paragraphs sep ps @ sep @ p)"
  by (simp add: join_paragraphs_def)

lemma TrimSpace_examples:
  "TrimSpace '' T '' = ''T''"
  "TrimSpace '' p1 '' = ''p1''"
  "TrimSpace ''p2'' = ''p2''"
  "TrimSpace ''T'' = ''T''"
  by (simp_all add: TrimSpace_def space_runes_def)

lemma ex_item_chain:
  "resolves ex_tree (c_ID (sn_parent (dn_parent (in_parent ex_item_node))))
     (sn_ID (dn_parent (in_parent ex_item_node))) (dn_ID (in_parent ex_item_node)) ''en'' 0 0 0"
  by (simp add: ex_item_node_def ex_difficulty_node_def ex_category_def ex_tree_resolves)

text \<open>A call that returns an error returns the parser it was given, but for the buffer.\<close>

lemma keep_res_error:
  "keep_res res out = Ret (r', res', Some e) \<Longrightarrow> out = Ret (r', Some e) \<and> res' = res"
  by (auto simp: keep_res_def split: outcome.splits)

lemma parseForm_error: "parseForm r f res locale = Ret (r', Some e) \<Longrightarrow> r' = r"
  by (auto simp: parseForm_def Let_def split: list.splits outcome.splits sum.splits)

lemma parseCategory_error: "parseCategory r c res locale = Ret (r', Some e) \<Longrightarrow> r' = r"
  by (auto simp: parseCategory_def split: if_splits)

lemma parseSubcategory_error: "parseSubcategory r s res locale = Ret (r', Some e) \<Longrightarrow> r' = r"
  by (auto simp: parseSubcategory_def split: if_splits outcome.splits option.splits)

lemma parseDifficulty_error: "parseDifficulty r d res locale = Ret (r', Some e) \<Longrightarrow> r' = r"
  by (auto simp: parseDifficulty_def split: if_splits outcome.splits option.splits)

lemma parseItem_error:
  "parseItem sep r i res locale = Ret (r', Some e) \<Longrightarrow> r' = r \<or> r' = r\<lparr>buffer := []\<rparr>"
  by (auto simp: parseItem_def Let_def split: if_splits outcome.splits option.splits)

lemma parseChecklist_error:
  "parseChecklist r c res locale = Ret (r', res', Some e) \<Longrightarrow> r' = r"
  by (auto simp: parseChecklist_def Let_def split: if_splits outcome.splits option.splits)

text \<open>The invariant of the registry, and \<^verbatim>\<open>getCat\<close> under it.\<close>

lemma registry_ok_new: "registry_ok NewResourceParser"
  by (simp add: registry_ok_def NewResourceParser_def)

lemma registry_ok_addCat: "registry_ok r \<Longrightarrow> registry_ok (addCat r c)"
  by (auto simp: registry_ok_def addCat_def less_Suc_eq)

lemma registry_ok_at_cat: "registry_ok r \<Longrightarrow> registry_ok (at_cat cat f r)"
  by (simp add: registry_ok_def at_cat_stores)

lemma getCat_empty: "categories_index r = Map.empty \<Longrightarrow> getCat r cid locale = Ret None"
  by (simp add: getCat_def)

lemma getCat_registered:
  assumes ok: "registry_ok r" and key: "categories_index r (cid, locale) = Some cat"
  shows "getCat r cid locale = Ret (Some cat)"
proof -
  from ok key have "cat < length (categories_list r)"
    by (auto simp: registry_ok_def)
  moreover from key have "categories_index r \<noteq> Map.empty"
    by auto
  ultimately show ?thesis
    using key by (simp add: getCat_def)
qed

text \<open>
  A key that is not in a non-empty index: the map read yields position 0, and \<^verbatim>\<open>getCat\<close>
  returns the first category of the list, not nil.
\<close>

lemma getCat_unregistered:
  assumes ok: "registry_ok r" and some: "categories_index r \<noteq> Map.empty"
    and key: "categories_index r (cid, locale) = None"
  shows "getCat r cid locale = Ret (Some 0)"
proof -
  from some obtain k i where "categories_index r k = Some i"
    by (metis not_Some_eq ext)
  with ok have "i < length (categories_list r)"
    unfolding registry_ok_def by blast
  then have "categories_list r \<noteq> []"
    by auto
  with some key show ?thesis
    by (simp add: getCat_def)
qed

lemma getCat_no_panic: "registry_ok r \<Longrightarrow> getCat r cid locale \<noteq> Panic p"
proof (cases "categories_index r = Map.empty")
  case True
  then show ?thesis by (simp add: getCat_empty)
next
  case False
  assume ok: "registry_ok r"
  show ?thesis
  proof (cases "categories_index r (cid, locale)")
    case None
    from getCat_unregistered [OF ok False None] show ?thesis by simp
  next
    case (Some cat)
    from getCat_registered [OF ok Some] show ?thesis by simp
  qed
qed

lemma registry_ok_same:
  "categories_index r' = categories_index r \<Longrightarrow>
   length (categories_list r') = length (categories_list r) \<Longrightarrow> registry_ok r \<Longrightarrow> registry_ok r'"
  by (simp add: registry_ok_def)

lemma parseForm_registry_ok:
  "parseForm r f res locale = Ret (r', e) \<Longrightarrow> registry_ok r \<Longrightarrow> registry_ok r'"
  by (auto simp: parseForm_def Let_def registry_ok_def split: list.splits outcome.splits sum.splits)

lemma parseCategory_registry_ok:
  "parseCategory r c res locale = Ret (r', e) \<Longrightarrow> registry_ok r \<Longrightarrow> registry_ok r'"
  by (auto simp: parseCategory_def registry_ok_addCat split: if_splits)

lemma parseSubcategory_registry_ok:
  "parseSubcategory r s res locale = Ret (r', e) \<Longrightarrow> registry_ok r \<Longrightarrow> registry_ok r'"
  by (auto simp: parseSubcategory_def registry_ok_at_cat split: if_splits outcome.splits option.splits)

lemma parseDifficulty_registry_ok:
  "parseDifficulty r d res locale = Ret (r', e) \<Longrightarrow> registry_ok r \<Longrightarrow> registry_ok r'"
  by (auto simp: parseDifficulty_def registry_ok_at_cat split: if_splits outcome.splits option.splits)

lemma parseItem_registry_ok:
  assumes "parseItem sep r i res locale = Ret (r', e)" and "registry_ok r"
  shows "registry_ok r'"
proof -
  from assms(1) have "categories_index r' = categories_index r \<and>
      length (categories_list r') = length (categories_list r)"
    by (auto simp: parseItem_def Let_def at_cat_stores split: if_splits outcome.splits option.splits)
  with assms(2) show ?thesis
    by (simp add: registry_ok_same)
qed

lemma parseChecklist_registry_ok:
  "parseChecklist r c res locale = Ret (r', res', e) \<Longrightarrow> registry_ok r \<Longrightarrow> registry_ok r'"
  by (auto simp: parseChecklist_def Let_def registry_ok_at_cat
      split: if_splits outcome.splits option.splits)

lemma Parse_registry_ok:
  assumes call: "Parse sep r cmp res locale = Ret (r', res', e)" and ok: "registry_ok r"
  shows "registry_ok r'"
proof (cases cmp)
  case (CForm v)
  with call ok show ?thesis
    by (auto simp: keep_res_def split: outcome.splits dest: parseForm_registry_ok)
next
  case (CCategory v)
  with call ok show ?thesis
    by (auto simp: keep_res_def split: outcome.splits dest: parseCategory_registry_ok)
next
  case (CSubcategory v)
  with call ok show ?thesis
    by (auto simp: keep_res_def split: outcome.splits dest: parseSubcategory_registry_ok)
next
  case (CDifficulty v)
  with call ok show ?thesis
    by (auto simp: keep_res_def split: outcome.splits dest: parseDifficulty_registry_ok)
next
  case (CItem v)
  with call ok show ?thesis
    by (auto simp: keep_res_def split: outcome.splits dest: parseItem_registry_ok)
next
  case (CChecklist v)
  with call ok show ?thesis
    by (auto dest: parseChecklist_registry_ok)
next
  case COther
  with call ok show ?thesis by simp
qed

lemma registry_ok_ex_tree: "registry_ok ex_tree"
  by (simp add: registry_ok_def ex_tree_def)

text \<open>
  On the example tree, whose only category is c1, a subcategory whose parent is the
  unregistered category c9 is merged without error and lands in c1.
\<close>

lemma parseSubcategory_unregistered_parent:
  "categories_index ex_tree (''c9'', ''en'') = None \<and>
   parseSubcategory ex_tree
     \<lparr>sn_ID = ''s2'', sn_Order = 2,
      sn_parent = \<lparr>c_ID = ''c9'', c_Order = 9, c_Name = [], c_Locale = [], c_subcategories = []\<rparr>\<rparr>
     \<lparr>Content = [row_of [(''name'', ''Air'')]]\<rparr> ''en'' =
     Ret (at_cat 0 (\<lambda>c. Category_Add c
            \<lparr>s_ID = ''s2'', s_Order = 2, s_Name = ''Air'', s_difficulties = []\<rparr>) ex_tree, None)"
  by (simp add: parseSubcategory_def getCat_def ex_tree_def row_of_def field_def)

section \<open>The claims\<close>

subsection \<open>The category merger\<close>

text \<open>
  Claim C8. A Category merge call with exactly one content row succeeds: the registry's
  list gains exactly one entry, a category with the schema's id and order, the given
  locale and the row's \<^verbatim>\<open>name\<close> field, and the index maps (id, locale) to its position;
  the form store is untouched. With no row, or with two rows or more, the call returns
  \<^verbatim>\<open>ErrContent\<close>, a shape mismatch, and the parser is unchanged.
\<close>

theorem parseCategory_one_row:
  "(length (Content res) = 1 \<longrightarrow>
      (\<exists>r'. parseCategory r c res locale = Ret (r', None) \<and>
            categories_list r' = categories_list r @
              [\<lparr>c_ID = c_ID c, c_Order = c_Order c, c_Name = field (Content res ! 0) ''name'',
                c_Locale = locale, c_subcategories = []\<rparr>] \<and>
            categories_index r' = (categories_index r)((c_ID c, locale) \<mapsto> length (categories_list r)) \<and>
            forms r' = forms r)) \<and>
   (length (Content res) \<noteq> 1 \<longrightarrow>
      parseCategory r c res locale = Ret (r, Some ErrContent) \<and> kind_of ErrContent = ShapeMismatch)"
proof (intro conjI impI)
  assume one: "length (Content res) = 1"
  let ?new = "\<lparr>c_ID = c_ID c, c_Order = c_Order c, c_Name = field (Content res ! 0) ''name'',
                c_Locale = locale, c_subcategories = []\<rparr>"
  from one have "parseCategory r c res locale = Ret (addCat r ?new, None)"
    by (simp add: parseCategory_def)
  moreover have "categories_list (addCat r ?new) = categories_list r @ [?new]"
    by (simp add: addCat_def)
  moreover have "categories_index (addCat r ?new) =
      (categories_index r)((c_ID c, locale) \<mapsto> length (categories_list r))"
    by (simp add: addCat_def)
  moreover have "forms (addCat r ?new) = forms r"
    by (simp add: addCat_def)
  ultimately show "\<exists>r'. parseCategory r c res locale = Ret (r', None) \<and>
            categories_list r' = categories_list r @ [?new] \<and>
            categories_index r' = (categories_index r)((c_ID c, locale) \<mapsto> length (categories_list r)) \<and>
            forms r' = forms r"
    by blast
next
  assume "length (Content res) \<noteq> 1"
  then show "parseCategory r c res locale = Ret (r, Some ErrContent)"
    by (simp add: parseCategory_def)
next
  show "kind_of ErrContent = ShapeMismatch" by simp
qed

theorem parseCategory_one_row_witness:
  "(\<exists>r'. parseCategory NewResourceParser ex_category
            \<lparr>Content = [row_of [(''name'', ''Health'')]]\<rparr> ''en'' = Ret (r', None) \<and>
         categories_list r' =
           [\<lparr>c_ID = ''c1'', c_Order = 1, c_Name = ''Health'', c_Locale = ''en'', c_subcategories = []\<rparr>] \<and>
         categories_index r' (''c1'', ''en'') = Some 0) \<and>
   parseCategory NewResourceParser ex_category \<lparr>Content = []\<rparr> ''en'' =
     Ret (NewResourceParser, Some ErrContent) \<and>
   parseCategory NewResourceParser ex_category
     \<lparr>Content = [row_of [(''name'', ''Health'')], row_of [(''name'', ''Food'')]]\<rparr> ''en'' =
     Ret (NewResourceParser, Some ErrContent)"
  using parseCategory_one_row [of "\<lparr>Content = [row_of [(''name'', ''Health'')]]\<rparr>"
           NewResourceParser ex_category "''en''"]
        parseCategory_one_row [of "\<lparr>Content = []\<rparr>" NewResourceParser ex_category "''en''"]
        parseCategory_one_row [of "\<lparr>Content = [row_of [(''name'', ''Health'')], row_of [(''name'', ''Food'')]]\<rparr>"
           NewResourceParser ex_category "''en''"]
  by (auto simp: NewResourceParser_def ex_category_def row_of_def field_def)

text \<open>
  Claim C9. Merging the same category (same id, same locale, one row each time) twice
  succeeds both times and leaves two entries in the registry's list, in the order of the
  calls; both are in \<^verbatim>\<open>Categories()\<close> for the locale, after the entries the locale had;
  the index holds the position of the second one only, and \<^verbatim>\<open>getCat\<close> returns it.
\<close>

theorem parseCategory_twice:
  assumes one1: "length (Content res1) = 1" and one2: "length (Content res2) = 1"
  shows "\<exists>r1 r2.
     parseCategory r c res1 locale = Ret (r1, None) \<and>
     parseCategory r1 c res2 locale = Ret (r2, None) \<and>
     categories_list r2 = categories_list r @
       [\<lparr>c_ID = c_ID c, c_Order = c_Order c, c_Name = field (Content res1 ! 0) ''name'',
         c_Locale = locale, c_subcategories = []\<rparr>,
        \<lparr>c_ID = c_ID c, c_Order = c_Order c, c_Name = field (Content res2 ! 0) ''name'',
         c_Locale = locale, c_subcategories = []\<rparr>] \<and>
     categories_index r2 (c_ID c, locale) = Some (Suc (length (categories_list r))) \<and>
     getCat r2 (c_ID c) locale = Ret (Some (Suc (length (categories_list r)))) \<and>
     categories_list r2 ! Suc (length (categories_list r)) =
       \<lparr>c_ID = c_ID c, c_Order = c_Order c, c_Name = field (Content res2 ! 0) ''name'',
        c_Locale = locale, c_subcategories = []\<rparr> \<and>
     Categories r2 locale = Some (filter (\<lambda>x. c_Locale x = locale) (categories_list r) @
       [\<lparr>c_ID = c_ID c, c_Order = c_Order c, c_Name = field (Content res1 ! 0) ''name'',
         c_Locale = locale, c_subcategories = []\<rparr>,
        \<lparr>c_ID = c_ID c, c_Order = c_Order c, c_Name = field (Content res2 ! 0) ''name'',
         c_Locale = locale, c_subcategories = []\<rparr>])"
proof -
  let ?e1 = "\<lparr>c_ID = c_ID c, c_Order = c_Order c, c_Name = field (Content res1 ! 0) ''name'',
         c_Locale = locale, c_subcategories = []\<rparr>"
  let ?e2 = "\<lparr>c_ID = c_ID c, c_Order = c_Order c, c_Name = field (Content res2 ! 0) ''name'',
         c_Locale = locale, c_subcategories = []\<rparr>"
  let ?r1 = "addCat r ?e1"
  let ?r2 = "addCat ?r1 ?e2"
  have p1: "parseCategory r c res1 locale = Ret (?r1, None)"
    using one1 by (simp add: parseCategory_def)
  have p2: "parseCategory ?r1 c res2 locale = Ret (?r2, None)"
    using one2 by (simp add: parseCategory_def)
  have l: "categories_list ?r2 = categories_list r @ [?e1, ?e2]"
    by (simp add: addCat_def)
  have i: "categories_index ?r2 (c_ID c, locale) = Some (Suc (length (categories_list r)))"
    by (simp add: addCat_def)
  have ne: "categories_index ?r2 \<noteq> Map.empty"
    using i by auto
  have g: "getCat ?r2 (c_ID c) locale = Ret (Some (Suc (length (categories_list r))))"
    using ne i l by (simp add: getCat_def)
  have c: "Categories ?r2 locale =
      Some (filter (\<lambda>x. c_Locale x = locale) (categories_list r) @ [?e1, ?e2])"
    by (simp add: Categories_filter l)
  have n: "categories_list ?r2 ! Suc (length (categories_list r)) = ?e2"
    by (simp add: l nth_append)
  from p1 p2 l i g n c show ?thesis by blast
qed

theorem parseCategory_twice_witness:
  "length (Content \<lparr>Content = [row_of [(''name'', ''Health'')]]\<rparr>) = 1 \<and>
   length (Content \<lparr>Content = [row_of [(''name'', ''Wellness'')]]\<rparr>) = 1 \<and>
   (\<exists>r1 r2.
     parseCategory NewResourceParser ex_category \<lparr>Content = [row_of [(''name'', ''Health'')]]\<rparr> ''en'' = Ret (r1, None) \<and>
     parseCategory r1 ex_category \<lparr>Content = [row_of [(''name'', ''Wellness'')]]\<rparr> ''en'' = Ret (r2, None) \<and>
     categories_list r2 =
       [\<lparr>c_ID = ''c1'', c_Order = 1, c_Name = ''Health'', c_Locale = ''en'', c_subcategories = []\<rparr>,
        \<lparr>c_ID = ''c1'', c_Order = 1, c_Name = ''Wellness'', c_Locale = ''en'', c_subcategories = []\<rparr>] \<and>
     categories_index r2 (''c1'', ''en'') = Some 1 \<and>
     getCat r2 ''c1'' ''en'' = Ret (Some 1) \<and>
     c_Name (categories_list r2 ! 1) = ''Wellness'' \<and>
     Categories r2 ''en'' = Some
       [\<lparr>c_ID = ''c1'', c_Order = 1, c_Name = ''Health'', c_Locale = ''en'', c_subcategories = []\<rparr>,
        \<lparr>c_ID = ''c1'', c_Order = 1, c_Name = ''Wellness'', c_Locale = ''en'', c_subcategories = []\<rparr>])"
proof -
  have one: "length (Content \<lparr>Content = [row_of [(''name'', ''Health'')]]\<rparr>) = 1"
    by simp
  have two: "length (Content \<lparr>Content = [row_of [(''name'', ''Wellness'')]]\<rparr>) = 1"
    by simp
  show ?thesis
    using one two parseCategory_twice [OF one two, of NewResourceParser ex_category "''en''"]
    by (auto simp: NewResourceParser_def ex_category_def row_of_def field_def)
qed

subsection \<open>The form aligner\<close>

text \<open>
  Claim C2, at the input the claim names: a schema with one named screen that holds one
  real item slot and one placeholder slot, and the rows (form name), (screen S1),
  (label L, hint H, options a;b). The call succeeds and stores a form whose screen is named
  S1, but the screen holds two items that are both empty: the item row is never read, and
  no item has the label L, the hint H or the options a, b.
\<close>

theorem parseForm_claimed_rows:
  "parseForm NewResourceParser ex_form \<lparr>Content = ex_form_rows\<rparr> ''en'' =
     Ret (NewResourceParser\<lparr>forms := [(''f1'', ''en'') \<mapsto>
            \<lparr>f_ID = ''f1'', f_Name = ''F'', f_Locale = ''en'',
             Screens = [\<lparr>fs_Name = ''S1'',
                         Items = [\<lparr>Label = [], Hint = [], Options = None\<rparr>,
                                  \<lparr>Label = [], Hint = [], Options = None\<rparr>]\<rparr>]\<rparr>]\<rparr>, None)"
  by (simp add: parseForm_def ex_form_def ex_form_rows_def row_of_def field_def
        screen_header_def zero_FormInput_def NewResourceParser_def numeral_2_eq_2)

text \<open>
  Claim C3, at an empty resource: \<^verbatim>\<open>res.Content[0]\<close> is read before any length check,
  so the call panics with an index out of range instead of returning an error.
\<close>

theorem parseForm_empty_resource:
  "parseForm r f \<lparr>Content = []\<rparr> locale = Panic (IndexOutOfRange 0 0)"
  by (simp add: parseForm_def)

subsection \<open>The checklist merger\<close>

text \<open>
  Claim C4. For a Checklist merge call whose ancestor chain resolves: the rows that count
  are the rows left when every leading nil row is dropped. When their number differs from
  the number of checks of the schema the call fails with a shape mismatch and the parser is
  unchanged. When the numbers agree the call succeeds: the new checklist pairs, in order,
  the trimmed \<^verbatim>\<open>text\<close> of each remaining row with the \<^verbatim>\<open>NoCheck\<close> flag of the schema's check
  at the same position, and it becomes the checklist of the resolved difficulty in place
  of whatever checklist the difficulty had.
\<close>

theorem parseChecklist_pairs_rows:
  assumes chain: "resolves r (c_ID (sn_parent (dn_parent (cn_parent c)))) (sn_ID (dn_parent (cn_parent c)))
             (dn_ID (cn_parent c)) locale cat sub dif"
  shows "strip_nil (Content res) = dropWhile (\<lambda>row. row = None) (Content res) \<and>
     (length (strip_nil (Content res)) \<noteq> length (cn_Checks c) \<longrightarrow>
        (\<exists>e. parseChecklist r c res locale = Ret (r, res\<lparr>Content := strip_nil (Content res)\<rparr>, Some e) \<and>
             kind_of e = ShapeMismatch)) \<and>
     (length (strip_nil (Content res)) = length (cn_Checks c) \<longrightarrow>
        (\<exists>r' checks.
           parseChecklist r c res locale = Ret (r', res\<lparr>Content := strip_nil (Content res)\<rparr>, None) \<and>
           checks = map (\<lambda>(row, ch). \<lparr>Text = TrimSpace (field row ''text''), NoCheck = NoCheck ch\<rparr>)
                      (zip (strip_nil (Content res)) (cn_Checks c)) \<and>
           length checks = length (cn_Checks c) \<and>
           r' = at_cat cat (at_sub sub (at_dif dif (\<lambda>d. d\<lparr>d_checks := Some \<lparr>Checks = checks\<rparr>\<rparr>))) r \<and>
           dif_at r' cat sub dif = (dif_at r cat sub dif)\<lparr>d_checks := Some \<lparr>Checks = checks\<rparr>\<rparr>))"
proof (intro conjI impI)
  show "strip_nil (Content res) = dropWhile (\<lambda>row. row = None) (Content res)"
    by (rule strip_nil_dropWhile)
next
  assume "length (strip_nil (Content res)) \<noteq> length (cn_Checks c)"
  then have "parseChecklist r c res locale =
      Ret (r, res\<lparr>Content := strip_nil (Content res)\<rparr>,
           Some (ChecksExpected (length (strip_nil (Content res))) (length (cn_Checks c))))"
    by (simp add: parseChecklist_resolved [OF chain])
  then show "\<exists>e. parseChecklist r c res locale =
        Ret (r, res\<lparr>Content := strip_nil (Content res)\<rparr>, Some e) \<and> kind_of e = ShapeMismatch"
    by simp
next
  assume eq: "length (strip_nil (Content res)) = length (cn_Checks c)"
  let ?rows = "strip_nil (Content res)"
  let ?checks = "map (\<lambda>(row, ch). \<lparr>Text = TrimSpace (field row ''text''), NoCheck = NoCheck ch\<rparr>)
                   (zip ?rows (cn_Checks c))"
  let ?r' = "at_cat cat (at_sub sub (at_dif dif (\<lambda>d. d\<lparr>d_checks := Some \<lparr>Checks = ?checks\<rparr>\<rparr>))) r"
  from eq have call: "parseChecklist r c res locale = Ret (?r', res\<lparr>Content := ?rows\<rparr>, None)"
    by (simp add: parseChecklist_resolved [OF chain] Difficulty_SetChecks_def)
  from eq have len: "length ?checks = length (cn_Checks c)"
    by simp
  have at: "dif_at ?r' cat sub dif = (dif_at r cat sub dif)\<lparr>d_checks := Some \<lparr>Checks = ?checks\<rparr>\<rparr>"
    using resolves_bounds [OF chain] by (rule dif_at_write)
  from call len at
  show "\<exists>r' checks.
           parseChecklist r c res locale = Ret (r', res\<lparr>Content := strip_nil (Content res)\<rparr>, None) \<and>
           checks = map (\<lambda>(row, ch). \<lparr>Text = TrimSpace (field row ''text''), NoCheck = NoCheck ch\<rparr>)
                      (zip (strip_nil (Content res)) (cn_Checks c)) \<and>
           length checks = length (cn_Checks c) \<and>
           r' = at_cat cat (at_sub sub (at_dif dif (\<lambda>d. d\<lparr>d_checks := Some \<lparr>Checks = checks\<rparr>\<rparr>))) r \<and>
           dif_at r' cat sub dif = (dif_at r cat sub dif)\<lparr>d_checks := Some \<lparr>Checks = checks\<rparr>\<rparr>"
    by blast
qed

theorem parseChecklist_pairs_rows_witness:
  "resolves ex_tree ''c1'' ''s1'' ''d1'' ''en'' 0 0 0 \<and>
   d_checks (dif_at ex_tree 0 0 0) = Some \<lparr>Checks = [\<lparr>Text = ''old'', NoCheck = False\<rparr>]\<rparr> \<and>
   (\<exists>r'. parseChecklist ex_tree ex_checklist_node
            \<lparr>Content = [None, row_of [(''text'', '' a '')], row_of [(''text'', ''b'')]]\<rparr> ''en'' =
          Ret (r', \<lparr>Content = [row_of [(''text'', '' a '')], row_of [(''text'', ''b'')]]\<rparr>, None) \<and>
        d_checks (dif_at r' 0 0 0) =
          Some \<lparr>Checks = [\<lparr>Text = ''a'', NoCheck = True\<rparr>, \<lparr>Text = ''b'', NoCheck = False\<rparr>]\<rparr>) \<and>
   (\<exists>e. parseChecklist ex_tree ex_checklist_node
            \<lparr>Content = [row_of [(''text'', ''a'')], row_of [(''text'', ''b'')], row_of [(''text'', ''c'')]]\<rparr> ''en'' =
          Ret (ex_tree, \<lparr>Content = [row_of [(''text'', ''a'')], row_of [(''text'', ''b'')], row_of [(''text'', ''c'')]]\<rparr>, Some e) \<and>
        kind_of e = ShapeMismatch)"
proof -
  have chain: "resolves ex_tree (c_ID (sn_parent (dn_parent (cn_parent ex_checklist_node))))
      (sn_ID (dn_parent (cn_parent ex_checklist_node))) (dn_ID (cn_parent ex_checklist_node)) ''en'' 0 0 0"
    by (simp add: ex_checklist_node_def ex_difficulty_node_def ex_category_def ex_tree_resolves)
  have old: "d_checks (dif_at ex_tree 0 0 0) = Some \<lparr>Checks = [\<lparr>Text = ''old'', NoCheck = False\<rparr>]\<rparr>"
    by (simp add: dif_at_def ex_tree_def)
  have two: "length (cn_Checks ex_checklist_node) = 2"
    by (simp add: ex_checklist_node_def)
  show ?thesis
    using ex_tree_resolves old
      parseChecklist_pairs_rows [OF chain,
        of "\<lparr>Content = [None, row_of [(''text'', '' a '')], row_of [(''text'', ''b'')]]\<rparr>"]
      parseChecklist_pairs_rows [OF chain,
        of "\<lparr>Content = [row_of [(''text'', ''a'')], row_of [(''text'', ''b'')], row_of [(''text'', ''c'')]]\<rparr>"]
    by (auto simp: two row_of_def field_def TrimSpace_a TrimSpace_b ex_checklist_node_def)
qed

text \<open>
  Claim C10. A Checklist merge call whose ancestor chain resolves leaves the caller's
  resource with its leading nil rows removed, also when the call then fails on the count
  of the rows (the parser is then unchanged); a resource that starts with a nil row is
  therefore different after the call.
\<close>

theorem parseChecklist_reslices_resource:
  assumes chain: "resolves r (c_ID (sn_parent (dn_parent (cn_parent c)))) (sn_ID (dn_parent (cn_parent c)))
             (dn_ID (cn_parent c)) locale cat sub dif"
  shows "\<exists>r' e. parseChecklist r c res locale = Ret (r', res\<lparr>Content := strip_nil (Content res)\<rparr>, e) \<and>
     (length (strip_nil (Content res)) \<noteq> length (cn_Checks c) \<longrightarrow>
        r' = r \<and> e = Some (ChecksExpected (length (strip_nil (Content res))) (length (cn_Checks c))) \<and>
        kind_of (ChecksExpected (length (strip_nil (Content res))) (length (cn_Checks c))) = ShapeMismatch) \<and>
     (\<forall>rs. Content res = None # rs \<longrightarrow> res\<lparr>Content := strip_nil (Content res)\<rparr> \<noteq> res)"
proof -
  have differ: "\<forall>rs. Content res = None # rs \<longrightarrow> res\<lparr>Content := strip_nil (Content res)\<rparr> \<noteq> res"
  proof (intro allI impI)
    fix rs
    assume c: "Content res = None # rs"
    have "length (strip_nil (None # rs)) < length (None # rs)"
      by (rule strip_nil_shorter)
    with c have "length (Content (res\<lparr>Content := strip_nil (Content res)\<rparr>)) < length (Content res)"
      by simp
    then show "res\<lparr>Content := strip_nil (Content res)\<rparr> \<noteq> res"
      by (metis less_irrefl)
  qed
  show ?thesis
  proof (cases "length (strip_nil (Content res)) = length (cn_Checks c)")
    case True
    with differ show ?thesis
      by (simp add: parseChecklist_resolved [OF chain])
  next
    case False
    with differ show ?thesis
      by (simp add: parseChecklist_resolved [OF chain])
  qed
qed

theorem parseChecklist_reslices_resource_witness:
  "resolves ex_tree ''c1'' ''s1'' ''d1'' ''en'' 0 0 0 \<and>
   parseChecklist ex_tree ex_checklist_node \<lparr>Content = [None, row_of [(''text'', ''a'')]]\<rparr> ''en'' =
     Ret (ex_tree, \<lparr>Content = [row_of [(''text'', ''a'')]]\<rparr>, Some (ChecksExpected 1 2)) \<and>
   \<lparr>Content = [row_of [(''text'', ''a'')]]\<rparr> \<noteq> \<lparr>Content = [None, row_of [(''text'', ''a'')]]\<rparr>"
proof -
  have chain: "resolves ex_tree (c_ID (sn_parent (dn_parent (cn_parent ex_checklist_node))))
      (sn_ID (dn_parent (cn_parent ex_checklist_node))) (dn_ID (cn_parent ex_checklist_node)) ''en'' 0 0 0"
    by (simp add: ex_checklist_node_def ex_difficulty_node_def ex_category_def ex_tree_resolves)
  have two: "length (cn_Checks ex_checklist_node) = 2"
    by (simp add: ex_checklist_node_def)
  show ?thesis
    using ex_tree_resolves
      parseChecklist_reslices_resource [OF chain, of "\<lparr>Content = [None, row_of [(''text'', ''a'')]]\<rparr>"]
    by (auto simp: two row_of_def)
qed

subsection \<open>The item merger\<close>

text \<open>
  Claim C5. For an Item merge call whose first row has an empty \<^verbatim>\<open>body\<close> field: the call
  succeeds exactly when the ancestor chain resolves, and then the item appended to the
  difficulty has the trimmed \<^verbatim>\<open>title\<close> of the first row as its title and, as its body,
  the trimmed \<^verbatim>\<open>body\<close> fields of the rows after the first, joined: the join of no piece is
  empty, and a further piece is appended after the separator when the text joined so far is
  not empty, and alone when it is empty, so that no separator leads.
\<close>

theorem parseItem_paragraph_mode:
  assumes rows: "Content res \<noteq> []" and para: "field (Content res ! 0) ''body'' = []"
  shows "(parseItem sep r i res locale = Ret (r', None) \<longleftrightarrow>
      (\<exists>cat sub dif.
         resolves r (c_ID (sn_parent (dn_parent (in_parent i)))) (sn_ID (dn_parent (in_parent i)))
           (dn_ID (in_parent i)) locale cat sub dif \<and>
         r' = at_cat cat (at_sub sub (at_dif dif (\<lambda>d. Difficulty_AddItem d
                \<lparr>i_ID = in_ID i, i_Title = TrimSpace (field (Content res ! 0) ''title''),
                 i_Order = in_Order i,
                 i_Body = join_paragraphs sep (map (\<lambda>v. TrimSpace (field v ''body'')) (tl (Content res)))\<rparr>)))
                (r\<lparr>buffer := join_paragraphs sep (map (\<lambda>v. TrimSpace (field v ''body'')) (tl (Content res)))\<rparr>))) \<and>
     join_paragraphs sep [] = [] \<and>
     (\<forall>ps p. join_paragraphs sep (ps @ [p]) =
        (if join_paragraphs sep ps = [] then p else join_paragraphs sep ps @ sep @ p))"
proof (intro conjI)
  show "parseItem sep r i res locale = Ret (r', None) \<longleftrightarrow>
      (\<exists>cat sub dif.
         resolves r (c_ID (sn_parent (dn_parent (in_parent i)))) (sn_ID (dn_parent (in_parent i)))
           (dn_ID (in_parent i)) locale cat sub dif \<and>
         r' = at_cat cat (at_sub sub (at_dif dif (\<lambda>d. Difficulty_AddItem d
                \<lparr>i_ID = in_ID i, i_Title = TrimSpace (field (Content res ! 0) ''title''),
                 i_Order = in_Order i,
                 i_Body = join_paragraphs sep (map (\<lambda>v. TrimSpace (field v ''body'')) (tl (Content res)))\<rparr>)))
                (r\<lparr>buffer := join_paragraphs sep (map (\<lambda>v. TrimSpace (field v ''body'')) (tl (Content res)))\<rparr>))"
    (is "?call \<longleftrightarrow> ?built")
  proof
    assume call: ?call
    then obtain cat sub dif where
      chain: "resolves r (c_ID (sn_parent (dn_parent (in_parent i)))) (sn_ID (dn_parent (in_parent i)))
           (dn_ID (in_parent i)) locale cat sub dif"
      using parseItem_success_resolves by blast
    from call show ?built
      unfolding parseItem_resolved [OF chain rows] using para chain by auto
  next
    assume ?built
    then obtain cat sub dif where
      chain: "resolves r (c_ID (sn_parent (dn_parent (in_parent i)))) (sn_ID (dn_parent (in_parent i)))
           (dn_ID (in_parent i)) locale cat sub dif" and
      r': "r' = at_cat cat (at_sub sub (at_dif dif (\<lambda>d. Difficulty_AddItem d
                \<lparr>i_ID = in_ID i, i_Title = TrimSpace (field (Content res ! 0) ''title''),
                 i_Order = in_Order i,
                 i_Body = join_paragraphs sep (map (\<lambda>v. TrimSpace (field v ''body'')) (tl (Content res)))\<rparr>)))
                (r\<lparr>buffer := join_paragraphs sep (map (\<lambda>v. TrimSpace (field v ''body'')) (tl (Content res)))\<rparr>)"
      by blast
    show ?call
      unfolding parseItem_resolved [OF chain rows] using para r' by simp
  qed
next
  show "join_paragraphs sep [] = []"
    by (simp add: join_paragraphs_def)
next
  show "\<forall>ps p. join_paragraphs sep (ps @ [p]) =
        (if join_paragraphs sep ps = [] then p else join_paragraphs sep ps @ sep @ p)"
    by (simp add: join_paragraphs_snoc)
qed


theorem parseItem_paragraph_mode_witness:
  "Content \<lparr>Content = [row_of [(''title'', '' T '')], row_of [(''body'', '' p1 '')], row_of [(''body'', ''p2'')]]\<rparr> \<noteq> [] \<and>
   field (Content \<lparr>Content = [row_of [(''title'', '' T '')], row_of [(''body'', '' p1 '')], row_of [(''body'', ''p2'')]]\<rparr> ! 0) ''body'' = [] \<and>
   (\<forall>sep. \<exists>r'.
      parseItem sep ex_tree ex_item_node
        \<lparr>Content = [row_of [(''title'', '' T '')], row_of [(''body'', '' p1 '')], row_of [(''body'', ''p2'')]]\<rparr> ''en'' =
        Ret (r', None) \<and>
      d_items (dif_at r' 0 0 0) =
        [\<lparr>i_ID = ''i1'', i_Title = ''T'', i_Order = 3, i_Body = ''p1'' @ sep @ ''p2''\<rparr>])"
proof (intro conjI allI)
  let ?res = "\<lparr>Content = [row_of [(''title'', '' T '')], row_of [(''body'', '' p1 '')], row_of [(''body'', ''p2'')]]\<rparr>"
  show rows: "Content ?res \<noteq> []"
    by simp
  show para: "field (Content ?res ! 0) ''body'' = []"
    by (simp add: row_of_def field_def)
  fix sep
  let ?body = "join_paragraphs sep (map (\<lambda>v. TrimSpace (field v ''body'')) (tl (Content ?res)))"
  let ?r' = "at_cat 0 (at_sub 0 (at_dif 0 (\<lambda>d. Difficulty_AddItem d
                \<lparr>i_ID = in_ID ex_item_node, i_Title = TrimSpace (field (Content ?res ! 0) ''title''),
                 i_Order = in_Order ex_item_node, i_Body = ?body\<rparr>)))
                (ex_tree\<lparr>buffer := ?body\<rparr>)"
  have call: "parseItem sep ex_tree ex_item_node ?res ''en'' = Ret (?r', None)"
    using parseItem_paragraph_mode [OF rows para, of sep ex_tree ex_item_node "''en''" ?r'] ex_item_chain
    by blast
  have body: "?body = ''p1'' @ sep @ ''p2''"
    by (simp add: join_paragraphs_def row_of_def field_def TrimSpace_examples)
  have "d_items (dif_at ?r' 0 0 0) =
      [\<lparr>i_ID = ''i1'', i_Title = ''T'', i_Order = 3, i_Body = ''p1'' @ sep @ ''p2''\<rparr>]"
    unfolding body
    by (simp add: dif_at_def at_cat_def at_sub_def at_dif_def modify_def Difficulty_AddItem_def
        ex_tree_def ex_item_node_def row_of_def field_def TrimSpace_examples)
  with call show "\<exists>r'. parseItem sep ex_tree ex_item_node ?res ''en'' = Ret (r', None) \<and>
      d_items (dif_at r' 0 0 0) =
        [\<lparr>i_ID = ''i1'', i_Title = ''T'', i_Order = 3, i_Body = ''p1'' @ sep @ ''p2''\<rparr>]"
    by blast
qed

text \<open>
  Claim C6, as stated, fails where the ancestor chain does not resolve: on a new parser a
  legacy item with one row does not succeed, and one with two rows does not fail with a
  shape mismatch; both calls return the missing-category error.
\<close>

theorem parseItem_legacy_unresolved_chain:
  "field (Content \<lparr>Content = [row_of [(''title'', ''T''), (''body'', '' legacy '')]]\<rparr> ! 0) ''body'' \<noteq> [] \<and>
   length (Content \<lparr>Content = [row_of [(''title'', ''T''), (''body'', '' legacy '')]]\<rparr>) = 1 \<and>
   parseItem ex_sep NewResourceParser ex_item_node
     \<lparr>Content = [row_of [(''title'', ''T''), (''body'', '' legacy '')]]\<rparr> ''en'' =
     Ret (NewResourceParser, Some (NoCat ''s1'' ''en'')) \<and>
   parseItem ex_sep NewResourceParser ex_item_node
     \<lparr>Content = [row_of [(''title'', ''T''), (''body'', ''x'')], row_of [(''body'', ''y'')]]\<rparr> ''en'' =
     Ret (NewResourceParser, Some (NoCat ''s1'' ''en'')) \<and>
   kind_of (NoCat ''s1'' ''en'') \<noteq> ShapeMismatch"
  by (simp add: parseItem_def getCat_def NewResourceParser_def row_of_def field_def
      ex_item_node_def ex_difficulty_node_def ex_category_def)

text \<open>
  Claim C6, amended. For an Item merge call whose ancestor chain resolves and whose first
  row has a non-empty \<^verbatim>\<open>body\<close> field: with exactly one row the call succeeds and appends
  to the difficulty an item whose body is the trimmed \<^verbatim>\<open>body\<close> of that row; with more
  than one row the call fails with a shape mismatch and the registry and the form store
  are unchanged, so no item is attached.
\<close>

theorem parseItem_legacy_mode:
  assumes chain: "resolves r (c_ID (sn_parent (dn_parent (in_parent i)))) (sn_ID (dn_parent (in_parent i)))
             (dn_ID (in_parent i)) locale cat sub dif"
    and rows: "Content res \<noteq> []"
    and legacy: "field (Content res ! 0) ''body'' \<noteq> []"
  shows "(length (Content res) = 1 \<longrightarrow>
       parseItem sep r i res locale =
         Ret (at_cat cat (at_sub sub (at_dif dif (\<lambda>d. Difficulty_AddItem d
                \<lparr>i_ID = in_ID i, i_Title = TrimSpace (field (Content res ! 0) ''title''),
                 i_Order = in_Order i, i_Body = TrimSpace (field (Content res ! 0) ''body'')\<rparr>)))
                (r\<lparr>buffer := TrimSpace (field (Content res ! 0) ''body'')\<rparr>), None)) \<and>
     (length (Content res) \<noteq> 1 \<longrightarrow>
       (\<exists>r' e. parseItem sep r i res locale = Ret (r', Some e) \<and> kind_of e = ShapeMismatch \<and>
          categories_list r' = categories_list r \<and> categories_index r' = categories_index r \<and>
          forms r' = forms r))"
proof (intro conjI impI)
  assume "length (Content res) = 1"
  with legacy show "parseItem sep r i res locale =
         Ret (at_cat cat (at_sub sub (at_dif dif (\<lambda>d. Difficulty_AddItem d
                \<lparr>i_ID = in_ID i, i_Title = TrimSpace (field (Content res ! 0) ''title''),
                 i_Order = in_Order i, i_Body = TrimSpace (field (Content res ! 0) ''body'')\<rparr>)))
                (r\<lparr>buffer := TrimSpace (field (Content res ! 0) ''body'')\<rparr>), None)"
    by (simp add: parseItem_resolved [OF chain rows])
next
  assume "length (Content res) \<noteq> 1"
  with legacy have "parseItem sep r i res locale =
      Ret (r\<lparr>buffer := []\<rparr>, Some (InvalidLegacy (dn_ID (in_parent i)) locale))"
    by (simp add: parseItem_resolved [OF chain rows])
  then show "\<exists>r' e. parseItem sep r i res locale = Ret (r', Some e) \<and> kind_of e = ShapeMismatch \<and>
          categories_list r' = categories_list r \<and> categories_index r' = categories_index r \<and>
          forms r' = forms r"
    by simp
qed

theorem parseItem_legacy_mode_witness:
  "resolves ex_tree ''c1'' ''s1'' ''d1'' ''en'' 0 0 0 \<and>
   (\<exists>r'. parseItem ex_sep ex_tree ex_item_node
            \<lparr>Content = [row_of [(''title'', ''T''), (''body'', '' legacy '')]]\<rparr> ''en'' = Ret (r', None) \<and>
         d_items (dif_at r' 0 0 0) =
           [\<lparr>i_ID = ''i1'', i_Title = ''T'', i_Order = 3, i_Body = ''legacy''\<rparr>]) \<and>
   (\<exists>r' e. parseItem ex_sep ex_tree ex_item_node
            \<lparr>Content = [row_of [(''title'', ''T''), (''body'', ''x'')], row_of [(''body'', ''y'')]]\<rparr> ''en'' =
            Ret (r', Some e) \<and>
         kind_of e = ShapeMismatch \<and> categories_list r' = categories_list ex_tree)"
proof -
  let ?one = "\<lparr>Content = [row_of [(''title'', ''T''), (''body'', '' legacy '')]]\<rparr>"
  let ?two = "\<lparr>Content = [row_of [(''title'', ''T''), (''body'', ''x'')], row_of [(''body'', ''y'')]]\<rparr>"
  have one: "Content ?one \<noteq> []" "field (Content ?one ! 0) ''body'' \<noteq> []" "length (Content ?one) = 1"
    by (simp_all add: row_of_def field_def)
  have two: "Content ?two \<noteq> []" "field (Content ?two ! 0) ''body'' \<noteq> []" "length (Content ?two) \<noteq> 1"
    by (simp_all add: row_of_def field_def)
  from parseItem_legacy_mode [OF ex_item_chain one(1) one(2), of ex_sep] one(3)
  have c1: "parseItem ex_sep ex_tree ex_item_node ?one ''en'' =
      Ret (at_cat 0 (at_sub 0 (at_dif 0 (\<lambda>d. Difficulty_AddItem d
                \<lparr>i_ID = in_ID ex_item_node, i_Title = TrimSpace (field (Content ?one ! 0) ''title''),
                 i_Order = in_Order ex_item_node, i_Body = TrimSpace (field (Content ?one ! 0) ''body'')\<rparr>)))
                (ex_tree\<lparr>buffer := TrimSpace (field (Content ?one ! 0) ''body'')\<rparr>), None)"
    by blast
  have items: "d_items (dif_at (at_cat 0 (at_sub 0 (at_dif 0 (\<lambda>d. Difficulty_AddItem d
                \<lparr>i_ID = in_ID ex_item_node, i_Title = TrimSpace (field (Content ?one ! 0) ''title''),
                 i_Order = in_Order ex_item_node, i_Body = TrimSpace (field (Content ?one ! 0) ''body'')\<rparr>)))
                (ex_tree\<lparr>buffer := TrimSpace (field (Content ?one ! 0) ''body'')\<rparr>)) 0 0 0) =
      [\<lparr>i_ID = ''i1'', i_Title = ''T'', i_Order = 3, i_Body = ''legacy''\<rparr>]"
    by (simp add: dif_at_def at_cat_def at_sub_def at_dif_def modify_def Difficulty_AddItem_def
        ex_tree_def ex_item_node_def row_of_def field_def TrimSpace_examples TrimSpace_legacy)
  from parseItem_legacy_mode [OF ex_item_chain two(1) two(2), of ex_sep] two(3)
  have c2: "\<exists>r' e. parseItem ex_sep ex_tree ex_item_node ?two ''en'' = Ret (r', Some e) \<and>
      kind_of e = ShapeMismatch \<and> categories_list r' = categories_list ex_tree"
    by blast
  from c1 items c2 ex_tree_resolves show ?thesis
    by blast
qed

subsection \<open>The dispatcher\<close>

text \<open>
  Claim C7. A merge call of any node kind that returns an error leaves the category
  registry (the index and the list, with the whole tree of every category) and the form
  store exactly as they were before the call.
\<close>

theorem Parse_error_no_write:
  assumes err: "Parse sep r cmp res locale = Ret (r', res', Some e)"
  shows "categories_index r' = categories_index r \<and> categories_list r' = categories_list r \<and>
         forms r' = forms r"
proof (cases cmp)
  case (CForm v)
  with err have "parseForm r v res locale = Ret (r', Some e)"
    by (simp add: keep_res_error)
  then show ?thesis by (auto dest: parseForm_error)
next
  case (CCategory v)
  with err have "parseCategory r v res locale = Ret (r', Some e)"
    by (simp add: keep_res_error)
  then show ?thesis by (auto dest: parseCategory_error)
next
  case (CSubcategory v)
  with err have "parseSubcategory r v res locale = Ret (r', Some e)"
    by (simp add: keep_res_error)
  then show ?thesis by (auto dest: parseSubcategory_error)
next
  case (CDifficulty v)
  with err have "parseDifficulty r v res locale = Ret (r', Some e)"
    by (simp add: keep_res_error)
  then show ?thesis by (auto dest: parseDifficulty_error)
next
  case (CItem v)
  with err have "parseItem sep r v res locale = Ret (r', Some e)"
    by (simp add: keep_res_error)
  then have "r' = r \<or> r' = r\<lparr>buffer := []\<rparr>"
    by (rule parseItem_error)
  then show ?thesis by auto
next
  case (CChecklist v)
  with err have "parseChecklist r v res locale = Ret (r', res', Some e)"
    by simp
  then show ?thesis by (auto dest: parseChecklist_error)
next
  case COther
  with err show ?thesis by simp
qed

theorem Parse_error_no_write_witness:
  "Parse ex_sep ex_tree (CItem ex_item_node)
     \<lparr>Content = [row_of [(''title'', ''T''), (''body'', ''x'')], row_of [(''body'', ''y'')]]\<rparr> ''en'' =
     Ret (ex_tree\<lparr>buffer := []\<rparr>,
          \<lparr>Content = [row_of [(''title'', ''T''), (''body'', ''x'')], row_of [(''body'', ''y'')]]\<rparr>,
          Some (InvalidLegacy ''d1'' ''en'')) \<and>
   categories_index (ex_tree\<lparr>buffer := []\<rparr>) = categories_index ex_tree \<and>
   categories_list (ex_tree\<lparr>buffer := []\<rparr>) = categories_list ex_tree \<and>
   forms (ex_tree\<lparr>buffer := []\<rparr>) = forms ex_tree"
proof -
  let ?two = "\<lparr>Content = [row_of [(''title'', ''T''), (''body'', ''x'')], row_of [(''body'', ''y'')]]\<rparr>"
  have rows: "Content ?two \<noteq> []" by simp
  have "parseItem ex_sep ex_tree ex_item_node ?two ''en'' =
      Ret (ex_tree\<lparr>buffer := []\<rparr>, Some (InvalidLegacy ''d1'' ''en''))"
    unfolding parseItem_resolved [OF ex_item_chain rows]
    by (simp add: row_of_def field_def ex_item_node_def ex_difficulty_node_def)
  then have call: "Parse ex_sep ex_tree (CItem ex_item_node) ?two ''en'' =
      Ret (ex_tree\<lparr>buffer := []\<rparr>, ?two, Some (InvalidLegacy ''d1'' ''en''))"
    by (simp add: keep_res_def)
  from call Parse_error_no_write [OF call] show ?thesis
    by blast
qed

subsection \<open>The subcategory and difficulty mergers\<close>

text \<open>
  Claim C1, as stated, fails on the row count: with no registry entry at all, so that the
  ancestor chain is absent, a Subcategory merge with no row and a Difficulty merge with two
  rows fail with \<^verbatim>\<open>ErrContent\<close>, a shape mismatch, and not with the missing-ancestor error.
\<close>

theorem merge_absent_chain_wrong_row_count:
  "categories_index NewResourceParser (c_ID (sn_parent ex_subcategory_node), ''en'') = None \<and>
   parseSubcategory NewResourceParser ex_subcategory_node \<lparr>Content = []\<rparr> ''en'' =
     Ret (NewResourceParser, Some ErrContent) \<and>
   parseDifficulty NewResourceParser ex_difficulty_node
     \<lparr>Content = [row_of [(''description'', ''a'')], row_of [(''description'', ''b'')]]\<rparr> ''en'' =
     Ret (NewResourceParser, Some ErrContent) \<and>
   kind_of ErrContent \<noteq> NotFound"
  by (simp add: parseSubcategory_def parseDifficulty_def NewResourceParser_def)

text \<open>
  Claim C1, amended. On a parser whose registry satisfies its invariant, a Subcategory or
  Difficulty merge call with a row count other than one fails with a shape mismatch,
  whatever the registry holds. With exactly one row: when the registry is empty both fail
  with the missing-ancestor error; when the index holds the key (category id, locale), the
  Subcategory merge succeeds and adds the subcategory to the category the index points at,
  and the Difficulty merge fails with the missing-ancestor error exactly when the lookup of
  the parent subcategory in that category returns nil, and succeeds exactly when it does
  not. (A key that the index of a non-empty registry does not hold is not covered.)
\<close>

theorem merge_ancestor_lookup:
  assumes ok: "registry_ok r"
  shows
   "(length (Content res) \<noteq> 1 \<longrightarrow>
       parseSubcategory r s res locale = Ret (r, Some ErrContent) \<and>
       parseDifficulty r d res locale = Ret (r, Some ErrContent) \<and>
       kind_of ErrContent = ShapeMismatch) \<and>
    (length (Content res) = 1 \<and> categories_index r = Map.empty \<longrightarrow>
       (\<exists>e. parseSubcategory r s res locale = Ret (r, Some e) \<and> kind_of e = NotFound) \<and>
       (\<exists>e. parseDifficulty r d res locale = Ret (r, Some e) \<and> kind_of e = NotFound)) \<and>
    (length (Content res) = 1 \<and> categories_index r (c_ID (sn_parent s), locale) = Some cat \<longrightarrow>
       parseSubcategory r s res locale =
         Ret (at_cat cat (\<lambda>c. Category_Add c
                \<lparr>s_ID = sn_ID s, s_Order = sn_Order s,
                 s_Name = field (Content res ! 0) ''name'', s_difficulties = []\<rparr>) r, None)) \<and>
    (length (Content res) = 1 \<and>
     categories_index r (c_ID (sn_parent (dn_parent d)), locale) = Some cat \<longrightarrow>
       ((\<exists>e. parseDifficulty r d res locale = Ret (r, Some e) \<and> kind_of e = NotFound) \<longleftrightarrow>
          Category_Sub (categories_list r ! cat) (sn_ID (dn_parent d)) = None) \<and>
       ((\<exists>r'. parseDifficulty r d res locale = Ret (r', None)) \<longleftrightarrow>
          Category_Sub (categories_list r ! cat) (sn_ID (dn_parent d)) \<noteq> None))"
proof (intro conjI impI)
  assume "length (Content res) \<noteq> 1"
  then show "parseSubcategory r s res locale = Ret (r, Some ErrContent)"
    and "parseDifficulty r d res locale = Ret (r, Some ErrContent)"
    by (simp_all add: parseSubcategory_def parseDifficulty_def)
next
  show "kind_of ErrContent = ShapeMismatch" by simp
next
  assume h: "length (Content res) = 1 \<and> categories_index r = Map.empty"
  then have "parseSubcategory r s res locale = Ret (r, Some (NoCat (c_ID (sn_parent s)) locale))"
    by (simp add: parseSubcategory_def getCat_empty)
  then show "\<exists>e. parseSubcategory r s res locale = Ret (r, Some e) \<and> kind_of e = NotFound"
    by simp
  from h have "parseDifficulty r d res locale =
      Ret (r, Some (NoCat (c_ID (sn_parent (dn_parent d))) locale))"
    by (simp add: parseDifficulty_def getCat_empty)
  then show "\<exists>e. parseDifficulty r d res locale = Ret (r, Some e) \<and> kind_of e = NotFound"
    by simp
next
  assume h: "length (Content res) = 1 \<and> categories_index r (c_ID (sn_parent s), locale) = Some cat"
  then have "getCat r (c_ID (sn_parent s)) locale = Ret (Some cat)"
    using ok by (simp add: getCat_registered)
  with h show "parseSubcategory r s res locale =
         Ret (at_cat cat (\<lambda>c. Category_Add c
                \<lparr>s_ID = sn_ID s, s_Order = sn_Order s,
                 s_Name = field (Content res ! 0) ''name'', s_difficulties = []\<rparr>) r, None)"
    by (simp add: parseSubcategory_def)
next
  assume h: "length (Content res) = 1 \<and>
     categories_index r (c_ID (sn_parent (dn_parent d)), locale) = Some cat"
  then have g: "getCat r (c_ID (sn_parent (dn_parent d))) locale = Ret (Some cat)"
    using ok by (simp add: getCat_registered)
  with h show "(\<exists>e. parseDifficulty r d res locale = Ret (r, Some e) \<and> kind_of e = NotFound) \<longleftrightarrow>
          Category_Sub (categories_list r ! cat) (sn_ID (dn_parent d)) = None"
    by (auto simp: parseDifficulty_def split: option.splits)
  from h g show "(\<exists>r'. parseDifficulty r d res locale = Ret (r', None)) \<longleftrightarrow>
          Category_Sub (categories_list r ! cat) (sn_ID (dn_parent d)) \<noteq> None"
    by (auto simp: parseDifficulty_def split: option.splits)
qed

theorem merge_ancestor_lookup_witness:
  "registry_ok NewResourceParser \<and> registry_ok ex_tree \<and>
   (\<exists>e. parseSubcategory NewResourceParser ex_subcategory_node
           \<lparr>Content = [row_of [(''name'', ''Water'')]]\<rparr> ''en'' = Ret (NewResourceParser, Some e) \<and>
        kind_of e = NotFound) \<and>
   (\<exists>e. parseDifficulty NewResourceParser ex_difficulty_node
           \<lparr>Content = [row_of [(''description'', ''Beginner'')]]\<rparr> ''en'' = Ret (NewResourceParser, Some e) \<and>
        kind_of e = NotFound) \<and>
   parseSubcategory ex_tree ex_subcategory_node \<lparr>Content = []\<rparr> ''en'' = Ret (ex_tree, Some ErrContent) \<and>
   parseSubcategory ex_tree ex_subcategory_node \<lparr>Content = [row_of [(''name'', ''Water'')]]\<rparr> ''en'' =
     Ret (at_cat 0 (\<lambda>c. Category_Add c
            \<lparr>s_ID = ''s1'', s_Order = 1, s_Name = ''Water'', s_difficulties = []\<rparr>) ex_tree, None) \<and>
   (\<exists>r'. parseDifficulty ex_tree ex_difficulty_node
           \<lparr>Content = [row_of [(''description'', ''Beginner'')]]\<rparr> ''en'' = Ret (r', None)) \<and>
   (\<exists>e. parseDifficulty ex_tree (ex_difficulty_node\<lparr>dn_parent := ex_subcategory_node\<lparr>sn_ID := ''s9''\<rparr>\<rparr>)
           \<lparr>Content = [row_of [(''description'', ''Beginner'')]]\<rparr> ''en'' = Ret (ex_tree, Some e) \<and>
        kind_of e = NotFound)"
proof -
  let ?name = "\<lparr>Content = [row_of [(''name'', ''Water'')]]\<rparr>"
  let ?descr = "\<lparr>Content = [row_of [(''description'', ''Beginner'')]]\<rparr>"
  let ?d9 = "ex_difficulty_node\<lparr>dn_parent := ex_subcategory_node\<lparr>sn_ID := ''s9''\<rparr>\<rparr>"
  have empty: "length (Content ?name) = 1 \<and> categories_index NewResourceParser = Map.empty"
      "length (Content ?descr) = 1 \<and> categories_index NewResourceParser = Map.empty"
    by (simp_all add: NewResourceParser_def)
  have keyed: "length (Content ?name) = 1 \<and>
      categories_index ex_tree (c_ID (sn_parent ex_subcategory_node), ''en'') = Some 0"
    "length (Content ?descr) = 1 \<and>
      categories_index ex_tree (c_ID (sn_parent (dn_parent ex_difficulty_node)), ''en'') = Some 0"
    "length (Content ?descr) = 1 \<and>
      categories_index ex_tree (c_ID (sn_parent (dn_parent ?d9)), ''en'') = Some 0"
    by (simp_all add: ex_tree_def ex_subcategory_node_def ex_difficulty_node_def ex_category_def)
  have subs: "Category_Sub (categories_list ex_tree ! 0) (sn_ID (dn_parent ex_difficulty_node)) \<noteq> None"
    "Category_Sub (categories_list ex_tree ! 0) (sn_ID (dn_parent ?d9)) = None"
    by (simp_all add: Category_Sub_def ex_tree_def ex_difficulty_node_def ex_subcategory_node_def)
  have none: "length (Content \<lparr>Content = []\<rparr>) \<noteq> 1"
    by simp
  note new = merge_ancestor_lookup [OF registry_ok_new]
  note tree = merge_ancestor_lookup [OF registry_ok_ex_tree]
  from new [of ?name ex_subcategory_node "''en''"] empty(1)
  have a: "\<exists>e. parseSubcategory NewResourceParser ex_subcategory_node ?name ''en'' =
      Ret (NewResourceParser, Some e) \<and> kind_of e = NotFound"
    by blast
  from new [of ?descr _ "''en''" ex_difficulty_node] empty(2)
  have b: "\<exists>e. parseDifficulty NewResourceParser ex_difficulty_node ?descr ''en'' =
      Ret (NewResourceParser, Some e) \<and> kind_of e = NotFound"
    by blast
  from tree [of "\<lparr>Content = []\<rparr>" ex_subcategory_node "''en''"] none
  have c: "parseSubcategory ex_tree ex_subcategory_node \<lparr>Content = []\<rparr> ''en'' = Ret (ex_tree, Some ErrContent)"
    by blast
  from tree [of ?name ex_subcategory_node "''en''" _ 0] keyed(1)
  have "parseSubcategory ex_tree ex_subcategory_node ?name ''en'' =
      Ret (at_cat 0 (\<lambda>c. Category_Add c
            \<lparr>s_ID = sn_ID ex_subcategory_node, s_Order = sn_Order ex_subcategory_node,
             s_Name = field (Content ?name ! 0) ''name'', s_difficulties = []\<rparr>) ex_tree, None)"
    by blast
  then have d: "parseSubcategory ex_tree ex_subcategory_node ?name ''en'' =
      Ret (at_cat 0 (\<lambda>c. Category_Add c
            \<lparr>s_ID = ''s1'', s_Order = 1, s_Name = ''Water'', s_difficulties = []\<rparr>) ex_tree, None)"
    by (simp add: ex_subcategory_node_def row_of_def field_def)
  from tree [of ?descr _ "''en''" ex_difficulty_node 0] keyed(2) subs(1)
  have e: "\<exists>r'. parseDifficulty ex_tree ex_difficulty_node ?descr ''en'' = Ret (r', None)"
    by blast
  from tree [of ?descr _ "''en''" ?d9 0] keyed(3) subs(2)
  have f: "\<exists>e. parseDifficulty ex_tree ?d9 ?descr ''en'' = Ret (ex_tree, Some e) \<and> kind_of e = NotFound"
    by blast
  from registry_ok_new registry_ok_ex_tree a b c d e f show ?thesis
    by blast
qed

end
